theory Spec2Isabelle
  imports Complex_Main "HOL-Library.Char_ord" "HOL-Library.List_Lexorder"
begin

section \<open>Values, failures and the conversation states\<close>

text \<open>
  The exceptions the handlers of \<^verbatim>\<open>bot.py\<close> can raise: an index past the end of
  \<^verbatim>\<open>parts\<close>, a missing dictionary key, a failed \<^verbatim>\<open>int\<close>/\<^verbatim>\<open>float\<close> conversion, and
  \<^verbatim>\<open>sqlite3.OperationalError\<close>.
\<close>

datatype error = IndexError | KeyError | ValueError | OperationalError

text \<open>
  \<^verbatim>\<open>(TYPE, NAME, ..., EDIT_FIELD) = range(11)\<close>, and \<^verbatim>\<open>ConversationHandler.END\<close>.
\<close>

datatype conv_state =
    ST_TYPE | ST_NAME | ST_YEAR | ST_DESCRIPTION | ST_URL | ST_IMAGE
  | ST_ADMIN_RATING | ST_SITE_RATING | ST_GENRES | ST_EDIT_CHOICE | ST_EDIT_FIELD
  | ConversationHandler_END

definition PAGE_SIZE :: int where
  "PAGE_SIZE = 5"

section \<open>The catalog store\<close>

text \<open>
  The four tables of \<^verbatim>\<open>db_setup.py\<close>. A table that was never created is \<open>None\<close>: a
  statement that names it raises \<^verbatim>\<open>sqlite3.OperationalError\<close>. A row of \<^verbatim>\<open>objects\<close>
  keeps its primary key \<^verbatim>\<open>id\<close> (\<open>row_id\<close>), its \<^verbatim>\<open>obj_type\<close> (\<open>None\<close> for NULL) and
  the remaining columns in \<open>cols\<close>; \<^verbatim>\<open>genres\<close> rows are (id, name), \<^verbatim>\<open>object_genres\<close>
  rows are (object_id, genre_id), \<^verbatim>\<open>user_views\<close> rows are (user_id, object_id).
\<close>

record 'c obj =
  row_id :: int
  obj_type :: "string option"
  cols :: 'c

record 'c database =
  objects :: "'c obj list option"
  genres :: "(int \<times> string) list option"
  object_genres :: "(int \<times> int) list option"
  user_views :: "(int \<times> int) list option"

definition table :: "'a list option \<Rightarrow> 'a list" where
  "table t = (case t of None \<Rightarrow> [] | Some rows \<Rightarrow> rows)"

text \<open>\<^verbatim>\<open>setup_database\<close>: four times \<^verbatim>\<open>CREATE TABLE IF NOT EXISTS\<close>.\<close>

definition setup_database :: "'c database \<Rightarrow> 'c database" where
  "setup_database d =
     \<lparr> objects = Some (table (objects d)),
       genres = Some (table (genres d)),
       object_genres = Some (table (object_genres d)),
       user_views = Some (table (user_views d)) \<rparr>"

text \<open>
  The three words of \<^verbatim>\<open>category_map\<close> are Cyrillic; they are written as their UTF-8
  bytes.
\<close>

definition type_film :: string where
  "type_film = [CHR 0xD1, CHR 0x84, CHR 0xD0, CHR 0xB8, CHR 0xD0, CHR 0xBB, CHR 0xD1, CHR 0x8C,
                CHR 0xD0, CHR 0xBC]"

definition type_series :: string where
  "type_series = [CHR 0xD1, CHR 0x81, CHR 0xD0, CHR 0xB5, CHR 0xD1, CHR 0x80, CHR 0xD0, CHR 0xB8,
                  CHR 0xD0, CHR 0xB0, CHR 0xD0, CHR 0xBB]"

definition type_book :: string where
  "type_book = [CHR 0xD0, CHR 0xBA, CHR 0xD0, CHR 0xBD, CHR 0xD0, CHR 0xB8, CHR 0xD0, CHR 0xB3,
                CHR 0xD0, CHR 0xB0]"

definition category_map :: "string \<Rightarrow> string option" where
  "category_map category =
     (if category = ''films'' then Some type_film
      else if category = ''series'' then Some type_series
      else if category = ''books'' then Some type_book
      else None)"

text \<open>
  The subqueries of the filter, as lists of object ids:
  \<^verbatim>\<open>SELECT object_id FROM object_genres WHERE genre_id = (SELECT id FROM genres WHERE name = ?)\<close>
  (a scalar subquery: the first matching genre row, no row when there is none), the
  joined form \<^verbatim>\<open>get_available_genres\<close> uses, and
  \<^verbatim>\<open>SELECT object_id FROM user_views WHERE user_id = ?\<close>.
\<close>

definition genre_subquery :: "(int \<times> int) list \<Rightarrow> (int \<times> string) list \<Rightarrow> string \<Rightarrow> int list" where
  "genre_subquery ogs gs name =
     (case filter (\<lambda>g. snd g = name) gs of
        [] \<Rightarrow> []
      | g # _ \<Rightarrow> map fst (filter (\<lambda>l. snd l = fst g) ogs))"

definition genre_join_subquery :: "(int \<times> int) list \<Rightarrow> (int \<times> string) list \<Rightarrow> string \<Rightarrow> int list" where
  "genre_join_subquery ogs gs name =
     map fst (filter (\<lambda>l. list_ex (\<lambda>g. fst g = snd l \<and> snd g = name) gs) ogs)"

definition views_subquery :: "(int \<times> int) list \<Rightarrow> int \<Rightarrow> int list" where
  "views_subquery uvs user_id = map snd (filter (\<lambda>v. fst v = user_id) uvs)"

text \<open>
  Whether the statement built from \<open>selected\<close> and \<open>viewed\<close> names a table that does
  not exist: \<^verbatim>\<open>objects\<close> always, \<^verbatim>\<open>object_genres\<close> and \<^verbatim>\<open>genres\<close> once per selected
  genre, \<^verbatim>\<open>user_views\<close> under the viewed filter.
\<close>

definition missing_table :: "'c database \<Rightarrow> string list \<Rightarrow> bool \<Rightarrow> bool" where
  "missing_table d selected viewed =
     (objects d = None
      \<or> (selected \<noteq> [] \<and> (object_genres d = None \<or> genres d = None))
      \<or> (viewed \<and> user_views d = None))"

text \<open>
  The \<^verbatim>\<open>WHERE\<close> clause \<^verbatim>\<open>count_filtered_objects\<close> and the \<^verbatim>\<open>select\<close> branch of \<^verbatim>\<open>button\<close>
  both build: \<^verbatim>\<open>obj_type = ?\<close> (never true for a NULL on either side), one
  \<^verbatim>\<open>AND id IN (...)\<close> per selected genre, and one for the viewed filter.
\<close>

definition where_filter :: "'c database \<Rightarrow> string option \<Rightarrow> string list \<Rightarrow> bool \<Rightarrow> int \<Rightarrow> 'c obj \<Rightarrow> bool" where
  "where_filter d ty selected viewed user_id ob =
     (obj_type ob \<noteq> None \<and> obj_type ob = ty
      \<and> list_all (\<lambda>genre. row_id ob \<in> set (genre_subquery (table (object_genres d)) (table (genres d)) genre))
           selected
      \<and> (if viewed then row_id ob \<in> set (views_subquery (table (user_views d)) user_id) else True))"

definition select_filtered :: "'c database \<Rightarrow> string \<Rightarrow> string list \<Rightarrow> bool \<Rightarrow> int \<Rightarrow> error + 'c obj list" where
  "select_filtered d category selected viewed user_id =
     (if missing_table d selected viewed then Inl OperationalError
      else Inr (filter (where_filter d (category_map category) selected viewed user_id)
                  (table (objects d))))"

text \<open>
  \<^verbatim>\<open>count_filtered_objects\<close>: \<^verbatim>\<open>SELECT COUNT(id)\<close> over the filter; the
  \<^verbatim>\<open>except sqlite3.OperationalError\<close> branch returns 0.
\<close>

definition count_filtered_objects :: "'c database \<Rightarrow> string \<Rightarrow> string list \<Rightarrow> bool \<Rightarrow> int \<Rightarrow> nat" where
  "count_filtered_objects d category selected viewed user_id =
     (case select_filtered d category selected viewed user_id of
        Inl e \<Rightarrow> 0
      | Inr rows \<Rightarrow> length rows)"

text \<open>
  \<^verbatim>\<open>get_available_genres\<close>: the distinct genre names, in \<^verbatim>\<open>ORDER BY g.name\<close> order, linked to
  an object of the (joined-form) filter; \<^verbatim>\<open>[]\<close> on \<^verbatim>\<open>sqlite3.OperationalError\<close>. The
  statement always names \<^verbatim>\<open>genres\<close>, \<^verbatim>\<open>object_genres\<close> and \<^verbatim>\<open>objects\<close>.
\<close>

definition get_available_genres :: "'c database \<Rightarrow> string \<Rightarrow> string list \<Rightarrow> bool \<Rightarrow> int \<Rightarrow> string list" where
  "get_available_genres d category selected viewed user_id =
     (if objects d = None \<or> object_genres d = None \<or> genres d = None
         \<or> (viewed \<and> user_views d = None)
      then []
      else
        let ogs = table (object_genres d); gs = table (genres d);
            base = map row_id (filter (\<lambda>ob.
                     obj_type ob \<noteq> None \<and> obj_type ob = category_map category
                     \<and> list_all (\<lambda>genre. row_id ob \<in> set (genre_join_subquery ogs gs genre)) selected
                     \<and> (if viewed then row_id ob \<in> set (views_subquery (table (user_views d)) user_id)
                         else True))
                   (table (objects d)))
        in sort (remdups (map snd (filter (\<lambda>g.
             list_ex (\<lambda>l. snd l = fst g \<and> fst l \<in> set base) ogs) gs))))"

text \<open>
  \<^verbatim>\<open>get_category_genres\<close>: the distinct genre names linked to an object whose
  \<^verbatim>\<open>obj_type\<close> is the argument itself (it is not passed through \<^verbatim>\<open>category_map\<close>).
\<close>

definition get_category_genres :: "'c database \<Rightarrow> string \<Rightarrow> string list" where
  "get_category_genres d category =
     (if objects d = None \<or> object_genres d = None \<or> genres d = None then []
      else
        let ids = map row_id (filter (\<lambda>ob. obj_type ob = Some category) (table (objects d)))
        in sort (remdups (map snd (filter (\<lambda>g.
             list_ex (\<lambda>l. snd l = fst g \<and> fst l \<in> set ids) (table (object_genres d)))
             (table (genres d))))))"

section \<open>Built-in functions\<close>

text \<open>
  \<^verbatim>\<open>data.split(':')\<close>: the pieces between the colons, never an empty list.
\<close>

fun str_split :: "string \<Rightarrow> string list" where
  "str_split [] = [[]]"
| "str_split (c # cs) =
     (if c = CHR '':'' then [] # str_split cs
      else (case str_split cs of [] \<Rightarrow> [[c]] | p # ps \<Rightarrow> (c # p) # ps))"

text \<open>\<^verbatim>\<open>parts[i]\<close>, which raises \<^verbatim>\<open>IndexError\<close> past the end.\<close>

definition index :: "'a list \<Rightarrow> nat \<Rightarrow> error + 'a" where
  "index xs i = (if i < length xs then Inr (xs ! i) else Inl IndexError)"

text \<open>
  \<^verbatim>\<open>results[start:end]\<close>: a negative bound counts from the end, and both bounds are
  clamped into the list.
\<close>

definition slice_bound :: "nat \<Rightarrow> int \<Rightarrow> nat" where
  "slice_bound n i = (if i < 0 then nat (max 0 (int n + i)) else min n (nat i))"

definition py_slice :: "'a list \<Rightarrow> int \<Rightarrow> int \<Rightarrow> 'a list" where
  "py_slice xs start stop =
     (let s = slice_bound (length xs) start; e = slice_bound (length xs) stop
      in take (e - s) (drop s xs))"

text \<open>\<^verbatim>\<open>str\<close> of an integer, as the f-strings of the keyboards format it.\<close>

definition digit_char :: "nat \<Rightarrow> char" where
  "digit_char n = ''0123456789'' ! n"

function str_nat :: "nat \<Rightarrow> string" where
  "str_nat n = (if n < 10 then [digit_char n] else str_nat (n div 10) @ [digit_char (n mod 10)])"
  by pat_completeness auto
termination
  by (relation "measure (\<lambda>n. n)") auto

declare str_nat.simps [simp del]

definition str_int :: "int \<Rightarrow> string" where
  "str_int i = (if i < 0 then CHR ''-'' # str_nat (nat (- i)) else str_nat (nat i))"

text \<open>
  \<^verbatim>\<open>int(text)\<close> and \<^verbatim>\<open>float(text)\<close> are Python's own: the handlers below take them as
  the parameters \<open>py_int\<close> and \<open>py_float\<close> (\<open>None\<close> where Python raises
  \<^verbatim>\<open>ValueError\<close>), and the theorems hold for every such function. Closed examples use
  \<open>ascii_int\<close>, which is \<^verbatim>\<open>int\<close> on ASCII text (blanks around, a sign, digits with single
  underscores between them), and \<open>ascii_decimal\<close>, which reads digits with at most one
  point and agrees with \<^verbatim>\<open>float\<close> on the texts used here.
\<close>

definition is_digit :: "char \<Rightarrow> bool" where
  "is_digit c = (c \<in> set ''0123456789'')"

definition digit_val :: "char \<Rightarrow> nat" where
  "digit_val c = of_char c - 48"

definition is_space :: "char \<Rightarrow> bool" where
  "is_space c = (of_char c \<in> set [9, 10, 11, 12, 13, 28, 29, 30, 31, 32 :: nat])"

definition strip :: "string \<Rightarrow> string" where
  "strip s = rev (dropWhile is_space (rev (dropWhile is_space s)))"

fun digits_from :: "string \<Rightarrow> nat \<Rightarrow> nat option" where
  "digits_from [] acc = Some acc"
| "digits_from (c # cs) acc =
     (if is_digit c then digits_from cs (10 * acc + digit_val c)
      else if c = CHR ''_'' \<and> cs \<noteq> [] \<and> is_digit (hd cs) then digits_from cs acc
      else None)"

definition digits :: "string \<Rightarrow> nat option" where
  "digits s = (case s of [] \<Rightarrow> None | c # cs \<Rightarrow> if is_digit c then digits_from s 0 else None)"

definition ascii_int :: "string \<Rightarrow> int option" where
  "ascii_int s =
     (case strip s of
        [] \<Rightarrow> None
      | c # cs \<Rightarrow>
          if c = CHR ''-'' then map_option (\<lambda>n. - int n) (digits cs)
          else if c = CHR ''+'' then map_option int (digits cs)
          else map_option int (digits (c # cs)))"

definition ascii_decimal :: "string \<Rightarrow> rat option" where
  "ascii_decimal s =
     (let whole = takeWhile (\<lambda>c. c \<noteq> CHR ''.'') s; rest = dropWhile (\<lambda>c. c \<noteq> CHR ''.'') s
      in if \<not> list_all is_digit whole then None
         else (case rest of
                 [] \<Rightarrow> (if whole = [] then None else Some (of_nat (foldl (\<lambda>acc c. 10 * acc + digit_val c) 0 whole)))
               | _ # fr \<Rightarrow>
                   if \<not> list_all is_digit fr \<or> (whole = [] \<and> fr = []) then None
                   else Some (of_nat (foldl (\<lambda>acc c. 10 * acc + digit_val c) 0 (whole @ fr))
                              / of_nat (10 ^ length fr))))"

text \<open>\<^verbatim>\<open>text.replace(",", ".")\<close>.\<close>

definition replace_comma :: "string \<Rightarrow> string" where
  "replace_comma s = map (\<lambda>c. if c = CHR '','' then CHR ''.'' else c) s"

section \<open>Session state and the transport\<close>

text \<open>
  \<^verbatim>\<open>context.user_data\<close>: a dictionary whose keys may be absent (\<open>None\<close>). The message
  stack is a list of levels, the topmost level last (\<^verbatim>\<open>append\<close> and \<^verbatim>\<open>pop\<close> work at the
  end). A cached result is \<^verbatim>\<open>dict(row)\<close>; rendering adds the key \<^verbatim>\<open>obj_genres\<close> to it.
\<close>

record 'c cached =
  row :: "'c obj"
  obj_genres :: "string list option"

record 'f pending_object =
  new_type :: "string option"
  new_name :: "string option"
  new_year :: "int option"
  new_description :: "string option"
  new_url :: "string option"
  new_image :: "string option"
  new_admin_rating :: "'f option"
  new_site_rating :: "'f option"
  new_genres :: "string list option"

record ('c, 'f) session =
  message_stack :: "int list list option"
  current_category :: "string option"
  selected_genres :: "(string \<rightharpoonup> string list) option"
  viewed_filter :: "(string \<rightharpoonup> bool) option"
  results_cache :: "'c cached list option"
  results_page :: "int option"
  new_object :: "'f pending_object option"

text \<open>\<^verbatim>\<open>context.user_data.clear()\<close>.\<close>

definition cleared :: "('c, 'f) session" where
  "cleared =
     \<lparr> message_stack = None, current_category = None, selected_genres = None,
       viewed_filter = None, results_cache = None, results_page = None, new_object = None \<rparr>"

text \<open>
  What the bot shows: each screen keeps the data it is built from and the
  \<^verbatim>\<open>callback_data\<close> of its buttons; labels and captions are left out.
\<close>

datatype screen =
    Greeting
  | RecommendationsMenu "string list"
  | GenreFilter nat "string list"
  | NothingFound "string list"
  | ObjectCard int bool "string list" "string list"
  | PageFooter int int "string list"
  | AdminPanel "string list"
  | ChooseType "string list"
  | Prompt conv_state "string list"
  | Cancelled

text \<open>
  The calls on the transport, in order: \<^verbatim>\<open>query.answer\<close> (plain, with a text, or as an
  alert), \<^verbatim>\<open>delete_message\<close> (whose failure is caught and logged), a sent message with
  the \<^verbatim>\<open>message_id\<close> the transport gave it, and an edit of the pressed message.
\<close>

datatype event =
    Answered
  | Alert
  | Deleted int
  | Sent int screen
  | Edited screen

text \<open>
  The world a handler runs in: the session, the database file, the next
  \<^verbatim>\<open>message_id\<close> of the chat and the transport calls made so far. Sending and editing
  are taken to succeed.
\<close>

record ('c, 'f) world =
  user_data :: "('c, 'f) session"
  bot_db :: "'c database"
  next_message_id :: int
  transport :: "event list"

definition emit :: "('c, 'f) world \<Rightarrow> event \<Rightarrow> ('c, 'f) world" where
  "emit w e = w\<lparr>transport := transport w @ [e]\<rparr>"

definition send_message :: "('c, 'f) world \<Rightarrow> screen \<Rightarrow> ('c, 'f) world \<times> int" where
  "send_message w scr =
     (w\<lparr>next_message_id := next_message_id w + 1,
        transport := transport w @ [Sent (next_message_id w) scr]\<rparr>,
      next_message_id w)"

text \<open>A raised exception ends the handler with the world as it is at that point.\<close>

definition raising ::
  "error + 'a \<Rightarrow> ('c, 'f) world \<Rightarrow> ('a \<Rightarrow> ('c, 'f) world \<times> (error + 'r)) \<Rightarrow> ('c, 'f) world \<times> (error + 'r)" where
  "raising r w k = (case r of Inl e \<Rightarrow> (w, Inl e) | Inr x \<Rightarrow> k x)"

definition is_admin :: "int list \<Rightarrow> int \<Rightarrow> bool" where
  "is_admin ADMIN_IDS user_id = (user_id \<in> set ADMIN_IDS)"

section \<open>Stack-based message management\<close>

text \<open>\<^verbatim>\<open>context.user_data.get('message_stack')\<close>, read for its truth value and its levels.\<close>

definition levels :: "('c, 'f) session \<Rightarrow> int list list" where
  "levels s = (case message_stack s of None \<Rightarrow> [] | Some st \<Rightarrow> st)"

definition pop_and_delete_messages :: "('c, 'f) world \<Rightarrow> ('c, 'f) world" where
  "pop_and_delete_messages w =
     (if levels (user_data w) \<noteq> [] then
        w\<lparr>user_data := (user_data w)\<lparr>message_stack := Some (butlast (levels (user_data w)))\<rparr>,
          transport := transport w @ map Deleted (last (levels (user_data w)))\<rparr>
      else w)"

definition push_new_message_level :: "('c, 'f) world \<Rightarrow> ('c, 'f) world" where
  "push_new_message_level w =
     w\<lparr>user_data := (user_data w)\<lparr>message_stack := Some (levels (user_data w) @ [[]])\<rparr>\<rparr>"

definition add_message_to_stack :: "('c, 'f) world \<Rightarrow> int \<Rightarrow> ('c, 'f) world" where
  "add_message_to_stack w message_id =
     (if levels (user_data w) \<noteq> [] then
        w\<lparr>user_data := (user_data w)\<lparr>message_stack :=
             Some (butlast (levels (user_data w)) @ [last (levels (user_data w)) @ [message_id]])\<rparr>\<rparr>
      else w)"

text \<open>
  \<^verbatim>\<open>while context.user_data.get('message_stack'): await pop_and_delete_messages(...)\<close>, the
  loop of \<^verbatim>\<open>show_recommendations\<close> and \<^verbatim>\<open>go_to_main_menu\<close>.
\<close>

function drain :: "('c, 'f) world \<Rightarrow> ('c, 'f) world" where
  "drain w = (if levels (user_data w) \<noteq> [] then drain (pop_and_delete_messages w) else w)"
  by pat_completeness auto
termination
  by (relation "measure (\<lambda>w. length (levels (user_data w)))")
     (auto simp: pop_and_delete_messages_def levels_def)

declare drain.simps [simp del]

section \<open>Keyboards\<close>

text \<open>The \<^verbatim>\<open>callback_data\<close> of the buttons, in the order the keyboards list them.\<close>

definition get_recommendations_keyboard :: "int list \<Rightarrow> int \<Rightarrow> string list" where
  "get_recommendations_keyboard ADMIN_IDS user_id =
     [''category:films'', ''category:series'', ''category:books'']
     @ (if is_admin ADMIN_IDS user_id then [''admin:panel''] else [])"

definition get_genres_keyboard :: "'c database \<Rightarrow> string \<Rightarrow> string list \<Rightarrow> bool \<Rightarrow> int \<Rightarrow> string list" where
  "get_genres_keyboard d category selected viewed user_id =
     [''genre:'' @ category @ '':_viewed_'']
     @ map (\<lambda>genre. ''genre:'' @ category @ '':'' @ genre)
         (get_available_genres d category selected viewed user_id)
     @ [''select:'' @ category, ''back:recommendations'']"

definition get_results_keyboard :: "string \<Rightarrow> int \<Rightarrow> int \<Rightarrow> string list" where
  "get_results_keyboard category page total_pages =
     (if page > 0 then [''page:'' @ category @ '':'' @ str_int (page - 1)] else [])
     @ (if page < total_pages - 1 then [''page:'' @ category @ '':'' @ str_int (page + 1)] else [])
     @ [''back:genres:'' @ category]"

text \<open>The buttons under one result: the view toggle, and for an admin edit and delete.\<close>

definition card_keyboard :: "int list \<Rightarrow> string \<Rightarrow> int \<Rightarrow> bool \<Rightarrow> int \<Rightarrow> string list" where
  "card_keyboard ADMIN_IDS category object_id is_viewed user_id =
     [(if is_viewed then ''unview:'' else ''view:'') @ category @ '':'' @ str_int object_id]
     @ (if is_admin ADMIN_IDS user_id
        then [''edit:'' @ category @ '':'' @ str_int object_id,
              ''delete:'' @ category @ '':'' @ str_int object_id]
        else [])"

section \<open>Rendering a page of results\<close>

text \<open>
  The two statements run for each displayed object, neither inside a \<^verbatim>\<open>try\<close>:
  \<^verbatim>\<open>SELECT g.name FROM genres g JOIN object_genres og ON g.id = og.genre_id WHERE og.object_id = ?\<close>
  and \<^verbatim>\<open>SELECT 1 FROM user_views WHERE user_id = ? AND object_id = ?\<close>.
\<close>

definition object_genre_names :: "'c database \<Rightarrow> int \<Rightarrow> error + string list" where
  "object_genre_names d object_id =
     (if genres d = None \<or> object_genres d = None then Inl OperationalError
      else Inr (concat (map (\<lambda>g. map (\<lambda>l. snd g)
                  (filter (\<lambda>l. snd l = fst g \<and> fst l = object_id) (table (object_genres d))))
                  (table (genres d)))))"

definition viewed_row :: "'c database \<Rightarrow> int \<Rightarrow> int \<Rightarrow> error + bool" where
  "viewed_row d user_id object_id =
     (if user_views d = None then Inl OperationalError
      else Inr ((user_id, object_id) \<in> set (table (user_views d))))"

text \<open>\<^verbatim>\<open>context.user_data.get('results_cache', [])\<close>.\<close>

definition cache :: "('c, 'f) session \<Rightarrow> 'c cached list" where
  "cache s = (case results_cache s of None \<Rightarrow> [] | Some rs \<Rightarrow> rs)"

text \<open>The positions \<^verbatim>\<open>results[start:end]\<close> takes its elements from.\<close>

definition slice_indices :: "nat \<Rightarrow> int \<Rightarrow> int \<Rightarrow> nat list" where
  "slice_indices n start stop = [slice_bound n start ..< slice_bound n stop]"

text \<open>
  The \<^verbatim>\<open>for obj_dict in page_results\<close> loop of \<^verbatim>\<open>send_paginated_results\<close>, over the
  positions of the page in the cache: the dictionaries of the page are those of the
  cache, so setting \<^verbatim>\<open>obj_dict['obj_genres']\<close> changes the cached entry. The viewer is
  \<^verbatim>\<open>chat_id\<close>. A photo that cannot be sent is replaced by a text message; both are one
  sent message.
\<close>

fun send_cards :: "int list \<Rightarrow> string \<Rightarrow> int \<Rightarrow> nat list \<Rightarrow> ('c, 'f) world \<Rightarrow> ('c, 'f) world \<times> (error + unit)" where
  "send_cards ADMIN_IDS category chat_id [] w = (w, Inr ())"
| "send_cards ADMIN_IDS category chat_id (i # rest) w =
     (let obj_dict = cache (user_data w) ! i; object_id = row_id (row obj_dict) in
      case object_genre_names (bot_db w) object_id of
        Inl e \<Rightarrow> (w, Inl e)
      | Inr names \<Rightarrow>
          (case viewed_row (bot_db w) chat_id object_id of
             Inl e \<Rightarrow> (w, Inl e)
           | Inr is_viewed \<Rightarrow>
               (let w1 = w\<lparr>user_data := (user_data w)\<lparr>results_cache :=
                           Some ((cache (user_data w))[i := obj_dict\<lparr>obj_genres := Some names\<rparr>])\<rparr>\<rparr>;
                    sent = send_message w1
                             (ObjectCard object_id is_viewed names
                                (card_keyboard ADMIN_IDS category object_id is_viewed chat_id));
                    w2 = add_message_to_stack (fst sent) (snd sent)
                in send_cards ADMIN_IDS category chat_id rest w2)))"

definition send_paginated_results :: "int list \<Rightarrow> ('c, 'f) world \<Rightarrow> int \<Rightarrow> string \<Rightarrow> ('c, 'f) world \<times> (error + unit)" where
  "send_paginated_results ADMIN_IDS w chat_id category =
     (let page = (case results_page (user_data w) of None \<Rightarrow> 0 | Some p \<Rightarrow> p);
          results = cache (user_data w);
          total_pages = (int (length results) + PAGE_SIZE - 1) div PAGE_SIZE;
          start_index = page * PAGE_SIZE;
          end_index = start_index + PAGE_SIZE;
          page_results = py_slice results start_index end_index;
          w1 = push_new_message_level w
      in if page_results = [] then
           (let sent = send_message w1 (NothingFound (get_results_keyboard category page total_pages))
            in (add_message_to_stack (fst sent) (snd sent), Inr ()))
         else
           (case send_cards ADMIN_IDS category chat_id
                   (slice_indices (length results) start_index end_index) w1 of
              (w2, Inl e) \<Rightarrow> (w2, Inl e)
            | (w2, Inr u) \<Rightarrow>
                (let sent = send_message w2
                              (PageFooter (page + 1) total_pages
                                 (get_results_keyboard category page total_pages))
                 in (add_message_to_stack (fst sent) (snd sent), Inr ()))))"

section \<open>The button handler\<close>

text \<open>
  A pressed button: \<^verbatim>\<open>query.from_user.id\<close>, \<^verbatim>\<open>query.message.chat_id\<close> and \<^verbatim>\<open>query.data\<close>.
\<close>

record callback_query =
  from_user_id :: int
  chat_id :: int
  data :: string

definition to_value :: "'a option \<Rightarrow> error + 'a" where
  "to_value r = (case r of None \<Rightarrow> Inl ValueError | Some v \<Rightarrow> Inr v)"

text \<open>\<^verbatim>\<open>context.user_data[key][category]\<close>, which raises \<^verbatim>\<open>KeyError\<close> for either missing key.\<close>

definition lookup :: "('k \<rightharpoonup> 'v) option \<Rightarrow> 'k \<Rightarrow> error + 'v" where
  "lookup dict k =
     (case dict of
        None \<Rightarrow> Inl KeyError
      | Some m \<Rightarrow> (case m k of None \<Rightarrow> Inl KeyError | Some v \<Rightarrow> Inr v))"

text \<open>\<^verbatim>\<open>context.user_data.get(key, {}).get(category, default)\<close>.\<close>

definition get_or :: "('k \<rightharpoonup> 'v) option \<Rightarrow> 'k \<Rightarrow> 'v \<Rightarrow> 'v" where
  "get_or dict k dflt =
     (case dict of
        None \<Rightarrow> dflt
      | Some m \<Rightarrow> (case m k of None \<Rightarrow> dflt | Some v \<Rightarrow> v))"

text \<open>
  The \<^verbatim>\<open>category\<close> branch: both dictionaries are created when absent, and the
  category's key is created in each when absent.
\<close>

definition button_category :: "('c, 'f) world \<Rightarrow> callback_query \<Rightarrow> string list \<Rightarrow> ('c, 'f) world \<times> (error + conv_state option)" where
  "button_category w query parts =
     raising (index parts 1) w (\<lambda>category.
       let s = user_data w;
           sg0 = (case selected_genres s of None \<Rightarrow> Map.empty | Some m \<Rightarrow> m);
           sg = (if sg0 category = None then sg0(category \<mapsto> []) else sg0);
           vf0 = (case viewed_filter s of None \<Rightarrow> Map.empty | Some m \<Rightarrow> m);
           vf = (if vf0 category = None then vf0(category \<mapsto> False) else vf0);
           w1 = w\<lparr>user_data := s\<lparr>current_category := Some category,
                                   selected_genres := Some sg, viewed_filter := Some vf\<rparr>\<rparr>;
           selected = get_or (Some sg) category [];
           viewed = get_or (Some vf) category False;
           user_id = from_user_id query;
           num_objects = count_filtered_objects (bot_db w1) category selected viewed user_id;
           keyboard = get_genres_keyboard (bot_db w1) category selected viewed user_id;
           w2 = push_new_message_level (pop_and_delete_messages (pop_and_delete_messages w1));
           sent = send_message w2 (GenreFilter num_objects keyboard)
       in (add_message_to_stack (fst sent) (snd sent), Inr None))"

text \<open>
  The \<^verbatim>\<open>genre\<close> branch. A dictionary that is absent is created with the category's key;
  one that is present is used as it is. Then the toggle: the viewed flag for the
  sentinel \<^verbatim>\<open>_viewed_\<close>, else \<^verbatim>\<open>remove\<close> (the first occurrence) of a genre that is in the
  list and \<^verbatim>\<open>append\<close> of one that is not.
\<close>

definition toggle :: "('c, 'f) session \<Rightarrow> string \<Rightarrow> string \<Rightarrow> error + ('c, 'f) session" where
  "toggle s category genre =
     (if genre = ''_viewed_'' then
        (case lookup (viewed_filter s) category of
           Inl e \<Rightarrow> Inl e
         | Inr flag \<Rightarrow>
             Inr (s\<lparr>viewed_filter := map_option (\<lambda>m. m(category \<mapsto> \<not> flag)) (viewed_filter s)\<rparr>))
      else
        (case lookup (selected_genres s) category of
           Inl e \<Rightarrow> Inl e
         | Inr gs \<Rightarrow>
             Inr (s\<lparr>selected_genres := map_option
                      (\<lambda>m. m(category \<mapsto> (if genre \<in> set gs then remove1 genre gs else gs @ [genre])))
                      (selected_genres s)\<rparr>)))"

definition button_genre :: "('c, 'f) world \<Rightarrow> callback_query \<Rightarrow> string list \<Rightarrow> ('c, 'f) world \<times> (error + conv_state option)" where
  "button_genre w query parts =
     raising (index parts 1) w (\<lambda>category.
     raising (index parts 2) w (\<lambda>genre.
       let s = user_data w;
           s1 = (case selected_genres s of
                   None \<Rightarrow> s\<lparr>selected_genres := Some [category \<mapsto> []]\<rparr>
                 | Some m \<Rightarrow> s);
           s2 = (case viewed_filter s1 of
                   None \<Rightarrow> s1\<lparr>viewed_filter := Some [category \<mapsto> False]\<rparr>
                 | Some m \<Rightarrow> s1);
           w1 = w\<lparr>user_data := s2\<rparr>
       in raising (toggle s2 category genre) w1 (\<lambda>s3.
            let w2 = w1\<lparr>user_data := s3\<rparr> in
            raising (lookup (selected_genres s3) category) w2 (\<lambda>selected.
            raising (lookup (viewed_filter s3) category) w2 (\<lambda>viewed.
              let user_id = from_user_id query;
                  num_objects = count_filtered_objects (bot_db w2) category selected viewed user_id;
                  keyboard = get_genres_keyboard (bot_db w2) category selected viewed user_id
              in (emit w2 (Edited (GenreFilter num_objects keyboard)), Inr None))))))"

text \<open>The two \<^verbatim>\<open>admin\<close> branches, after \<^verbatim>\<open>parts[1]\<close> has been read.\<close>

definition button_admin :: "int list \<Rightarrow> ('c, 'f) world \<Rightarrow> callback_query \<Rightarrow> string \<Rightarrow> ('c, 'f) world \<times> (error + conv_state option)" where
  "button_admin ADMIN_IDS w query what =
     (if what = ''add_object'' then
        (if \<not> is_admin ADMIN_IDS (from_user_id query)
         then (emit w Alert, Inr (Some ConversationHandler_END))
         else (emit w (Edited (ChooseType [''add_type:'' @ type_film, ''add_type:'' @ type_series,
                                            ''add_type:'' @ type_book])),
               Inr (Some ST_TYPE)))
      else if what = ''panel'' then
        (if \<not> is_admin ADMIN_IDS (from_user_id query)
         then (emit w Alert, Inr None)
         else (emit w (Edited (AdminPanel [''admin:add_object'', ''back:recommendations''])), Inr None))
      else (w, Inr None))"

text \<open>
  The three \<^verbatim>\<open>DELETE\<close> statements of the \<^verbatim>\<open>delete\<close> branch run in one transaction that
  is committed after the last: when one of them raises, nothing is committed.
\<close>

definition delete_object :: "'c database \<Rightarrow> int \<Rightarrow> error + 'c database" where
  "delete_object d object_id =
     (if objects d = None \<or> object_genres d = None \<or> user_views d = None then Inl OperationalError
      else Inr (d\<lparr>objects := Some (filter (\<lambda>ob. row_id ob \<noteq> object_id) (table (objects d))),
                  object_genres := Some (filter (\<lambda>l. fst l \<noteq> object_id) (table (object_genres d))),
                  user_views := Some (filter (\<lambda>v. snd v \<noteq> object_id) (table (user_views d)))\<rparr>))"

definition button_delete :: "int list \<Rightarrow> (string \<Rightarrow> int option) \<Rightarrow> ('c, 'f) world \<Rightarrow> callback_query \<Rightarrow> string list \<Rightarrow> ('c, 'f) world \<times> (error + conv_state option)" where
  "button_delete ADMIN_IDS py_int w query parts =
     (if \<not> is_admin ADMIN_IDS (from_user_id query) then (emit w Alert, Inr None)
      else
        raising (index parts 1) w (\<lambda>category.
        raising (index parts 2) w (\<lambda>text_id.
        raising (to_value (py_int text_id)) w (\<lambda>object_id.
        raising (delete_object (bot_db w) object_id) w (\<lambda>d.
          let w1 = emit (w\<lparr>bot_db := d\<rparr>) Answered;
              results = cache (user_data w1);
              w2 = w1\<lparr>user_data := (user_data w1)\<lparr>results_cache :=
                         Some (filter (\<lambda>ob. row_id (row ob) \<noteq> object_id) results)\<rparr>\<rparr>
          in (case send_paginated_results ADMIN_IDS (pop_and_delete_messages w2) (chat_id query) category of
                (w3, Inl e) \<Rightarrow> (w3, Inl e)
              | (w3, Inr u) \<Rightarrow> (w3, Inr None)))))))"

text \<open>
  The \<^verbatim>\<open>select\<close> branch: the statement is executed outside any \<^verbatim>\<open>try\<close>. The viewer is
  \<^verbatim>\<open>query.message.chat_id\<close>.
\<close>

definition button_select :: "int list \<Rightarrow> ('c, 'f) world \<Rightarrow> callback_query \<Rightarrow> string list \<Rightarrow> ('c, 'f) world \<times> (error + conv_state option)" where
  "button_select ADMIN_IDS w query parts =
     raising (index parts 1) w (\<lambda>category.
       let selected = get_or (selected_genres (user_data w)) category [];
           viewed = get_or (viewed_filter (user_data w)) category False;
           user_id = chat_id query
       in raising (select_filtered (bot_db w) category selected viewed user_id) w (\<lambda>filtered_objects.
            let w1 = w\<lparr>user_data := (user_data w)\<lparr>
                         results_cache := Some (map (\<lambda>r. \<lparr>row = r, obj_genres = None\<rparr>) filtered_objects),
                         results_page := Some 0\<rparr>\<rparr>
            in (case send_paginated_results ADMIN_IDS (pop_and_delete_messages w1) (chat_id query) category of
                  (w2, Inl e) \<Rightarrow> (w2, Inl e)
                | (w2, Inr u) \<Rightarrow> (w2, Inr None))))"

text \<open>The \<^verbatim>\<open>page\<close> branch stores the page of the payload as it is.\<close>

definition button_page :: "int list \<Rightarrow> (string \<Rightarrow> int option) \<Rightarrow> ('c, 'f) world \<Rightarrow> callback_query \<Rightarrow> string list \<Rightarrow> ('c, 'f) world \<times> (error + conv_state option)" where
  "button_page ADMIN_IDS py_int w query parts =
     raising (index parts 1) w (\<lambda>category.
     raising (index parts 2) w (\<lambda>text_page.
     raising (to_value (py_int text_page)) w (\<lambda>page.
       let w1 = w\<lparr>user_data := (user_data w)\<lparr>results_page := Some page\<rparr>\<rparr>
       in (case send_paginated_results ADMIN_IDS (pop_and_delete_messages w1) (chat_id query) category of
             (w2, Inl e) \<Rightarrow> (w2, Inl e)
           | (w2, Inr u) \<Rightarrow> (w2, Inr None)))))"

text \<open>
  \<^verbatim>\<open>INSERT OR IGNORE INTO user_views\<close> (the pair is the table's primary key) and
  \<^verbatim>\<open>DELETE FROM user_views WHERE user_id = ? AND object_id = ?\<close>, each committed at once
  and neither inside a \<^verbatim>\<open>try\<close>.
\<close>

definition insert_view :: "'c database \<Rightarrow> int \<Rightarrow> int \<Rightarrow> error + 'c database" where
  "insert_view d user_id object_id =
     (case user_views d of
        None \<Rightarrow> Inl OperationalError
      | Some uvs \<Rightarrow>
          Inr (if (user_id, object_id) \<in> set uvs then d
               else d\<lparr>user_views := Some (uvs @ [(user_id, object_id)])\<rparr>))"

definition delete_view :: "'c database \<Rightarrow> int \<Rightarrow> int \<Rightarrow> error + 'c database" where
  "delete_view d user_id object_id =
     (case user_views d of
        None \<Rightarrow> Inl OperationalError
      | Some uvs \<Rightarrow> Inr (d\<lparr>user_views := Some (filter (\<lambda>v. v \<noteq> (user_id, object_id)) uvs)\<rparr>))"

text \<open>
  \<^verbatim>\<open>next((obj for obj in results if obj['id'] == object_id), None)\<close> as a position in the
  cache.
\<close>

fun first_with_id :: "'c cached list \<Rightarrow> int \<Rightarrow> nat option" where
  "first_with_id [] object_id = None"
| "first_with_id (ob # rest) object_id =
     (if row_id (row ob) = object_id then Some 0
      else map_option Suc (first_with_id rest object_id))"

text \<open>
  What \<^verbatim>\<open>view\<close> and \<^verbatim>\<open>unview\<close> do after their write: when the object is in the cache,
  its genres are read again (outside any \<^verbatim>\<open>try\<close>), stored in the cached entry, and the
  pressed message is edited.
\<close>

definition refresh_card :: "int list \<Rightarrow> ('c, 'f) world \<Rightarrow> string \<Rightarrow> int \<Rightarrow> int \<Rightarrow> bool \<Rightarrow> ('c, 'f) world \<times> (error + conv_state option)" where
  "refresh_card ADMIN_IDS w category object_id user_id is_viewed =
     (let results = cache (user_data w) in
      case first_with_id results object_id of
        None \<Rightarrow> (w, Inr None)
      | Some i \<Rightarrow>
          raising (object_genre_names (bot_db w) object_id) w (\<lambda>names.
            let w1 = w\<lparr>user_data := (user_data w)\<lparr>results_cache :=
                         Some (results[i := (results ! i)\<lparr>obj_genres := Some names\<rparr>])\<rparr>\<rparr>
            in (emit w1 (Edited (ObjectCard object_id is_viewed names
                                   (card_keyboard ADMIN_IDS category object_id is_viewed user_id))),
                Inr None)))"

definition button_view :: "int list \<Rightarrow> (string \<Rightarrow> int option) \<Rightarrow> ('c, 'f) world \<Rightarrow> callback_query \<Rightarrow> string list \<Rightarrow> ('c, 'f) world \<times> (error + conv_state option)" where
  "button_view ADMIN_IDS py_int w query parts =
     raising (index parts 1) w (\<lambda>category.
     raising (index parts 2) w (\<lambda>text_id.
     raising (to_value (py_int text_id)) w (\<lambda>object_id.
       let user_id = from_user_id query in
       raising (insert_view (bot_db w) user_id object_id) w (\<lambda>d.
         refresh_card ADMIN_IDS (emit (w\<lparr>bot_db := d\<rparr>) Answered) category object_id user_id True))))"

definition button_unview :: "int list \<Rightarrow> (string \<Rightarrow> int option) \<Rightarrow> ('c, 'f) world \<Rightarrow> callback_query \<Rightarrow> string list \<Rightarrow> ('c, 'f) world \<times> (error + conv_state option)" where
  "button_unview ADMIN_IDS py_int w query parts =
     raising (index parts 1) w (\<lambda>category.
     raising (index parts 2) w (\<lambda>text_id.
     raising (to_value (py_int text_id)) w (\<lambda>object_id.
       let user_id = from_user_id query in
       raising (delete_view (bot_db w) user_id object_id) w (\<lambda>d.
         refresh_card ADMIN_IDS (emit (w\<lparr>bot_db := d\<rparr>) Answered) category object_id user_id False))))"

text \<open>The \<^verbatim>\<open>back\<close> branch pops the current level before it reads \<^verbatim>\<open>parts[2]\<close>.\<close>

definition button_back :: "int list \<Rightarrow> ('c, 'f) world \<Rightarrow> callback_query \<Rightarrow> string list \<Rightarrow> ('c, 'f) world \<times> (error + conv_state option)" where
  "button_back ADMIN_IDS w query parts =
     raising (index parts 1) w (\<lambda>target_menu.
       let w1 = pop_and_delete_messages w in
       if target_menu = ''recommendations'' then
         (let sent = send_message (push_new_message_level w1)
                       (RecommendationsMenu (get_recommendations_keyboard ADMIN_IDS (from_user_id query)))
          in (add_message_to_stack (fst sent) (snd sent), Inr None))
       else if target_menu = ''genres'' then
         raising (index parts 2) w1 (\<lambda>category.
           let selected = get_or (selected_genres (user_data w1)) category [];
               viewed = get_or (viewed_filter (user_data w1)) category False;
               user_id = from_user_id query;
               num_objects = count_filtered_objects (bot_db w1) category selected viewed user_id;
               keyboard = get_genres_keyboard (bot_db w1) category selected viewed user_id;
               sent = send_message (push_new_message_level w1) (GenreFilter num_objects keyboard)
           in (add_message_to_stack (fst sent) (snd sent), Inr None))
       else (w1, Inr None))"

text \<open>
  \<^verbatim>\<open>button\<close>: \<^verbatim>\<open>query.answer()\<close>, \<^verbatim>\<open>parts = query.data.split(':')\<close>, and the chain of
  tests on \<^verbatim>\<open>action = parts[0]\<close>. \<^verbatim>\<open>parts[1]\<close> is read in the first test when the action
  is \<^verbatim>\<open>admin\<close>. An action that no test names falls through the chain.
\<close>

definition button :: "int list \<Rightarrow> (string \<Rightarrow> int option) \<Rightarrow> ('c, 'f) world \<Rightarrow> callback_query \<Rightarrow> ('c, 'f) world \<times> (error + conv_state option)" where
  "button ADMIN_IDS py_int w query =
     (let w0 = emit w Answered; parts = str_split (data query) in
      raising (index parts 0) w0 (\<lambda>action.
        if action = ''admin'' then
          raising (index parts 1) w0 (\<lambda>what. button_admin ADMIN_IDS w0 query what)
        else if action = ''category'' then button_category w0 query parts
        else if action = ''genre'' then button_genre w0 query parts
        else if action = ''delete'' then button_delete ADMIN_IDS py_int w0 query parts
        else if action = ''select'' then button_select ADMIN_IDS w0 query parts
        else if action = ''page'' then button_page ADMIN_IDS py_int w0 query parts
        else if action = ''view'' then button_view ADMIN_IDS py_int w0 query parts
        else if action = ''unview'' then button_unview ADMIN_IDS py_int w0 query parts
        else if action = ''back'' then button_back ADMIN_IDS w0 query parts
        else (w0, Inr None)))"

section \<open>Commands and the data-entry steps\<close>

text \<open>
  The commands, and the steps of the data entry up to the site rating. The last step
  (\<^verbatim>\<open>add_genres\<close>, which writes the new object) and the edit flow are not part of this
  development.
\<close>

definition start :: "('c, 'f) world \<Rightarrow> ('c, 'f) world" where
  "start w = fst (send_message (w\<lparr>user_data := cleared\<lparr>message_stack := Some []\<rparr>\<rparr>) Greeting)"

definition show_recommendations :: "int list \<Rightarrow> ('c, 'f) world \<Rightarrow> int \<Rightarrow> int \<Rightarrow> ('c, 'f) world" where
  "show_recommendations ADMIN_IDS w user_id message_id =
     (let w1 = drain (emit w (Deleted message_id));
          sent = send_message (push_new_message_level w1)
                   (RecommendationsMenu (get_recommendations_keyboard ADMIN_IDS user_id))
      in add_message_to_stack (fst sent) (snd sent))"

definition go_to_main_menu :: "('c, 'f) world \<Rightarrow> ('c, 'f) world" where
  "go_to_main_menu w = start (drain w)"

text \<open>
  \<^verbatim>\<open>context.user_data['new_object'][key] = value\<close>, which raises \<^verbatim>\<open>KeyError\<close> when
  \<^verbatim>\<open>new_object\<close> is absent. Python evaluates the right-hand side first: a conversion
  that raises does so before anything is stored.
\<close>

definition store_new_object ::
  "('c, 'f) world \<Rightarrow> ('f pending_object \<Rightarrow> 'f pending_object) \<Rightarrow> error + ('c, 'f) world" where
  "store_new_object w f =
     (case new_object (user_data w) of
        None \<Rightarrow> Inl KeyError
      | Some n \<Rightarrow> Inr (w\<lparr>user_data := (user_data w)\<lparr>new_object := Some (f n)\<rparr>\<rparr>))"

definition add_type :: "('c, 'f) world \<Rightarrow> callback_query \<Rightarrow> ('c, 'f) world \<times> (error + conv_state)" where
  "add_type w query =
     (let w0 = emit w Answered in
      raising (index (str_split (data query)) 1) w0 (\<lambda>ty.
        let w1 = w0\<lparr>user_data := (user_data w0)\<lparr>new_object := Some
                     \<lparr> new_type = Some ty, new_name = None, new_year = None, new_description = None,
                       new_url = None, new_image = None, new_admin_rating = None,
                       new_site_rating = None, new_genres = None \<rparr>\<rparr>\<rparr>
        in (emit w1 (Edited (Prompt ST_NAME [])), Inr ST_NAME)))"

definition add_name :: "('c, 'f) world \<Rightarrow> string \<Rightarrow> ('c, 'f) world \<times> (error + conv_state)" where
  "add_name w reply =
     raising (store_new_object w (\<lambda>n. n\<lparr>new_name := Some reply\<rparr>)) w (\<lambda>w1.
       (fst (send_message w1 (Prompt ST_YEAR [])), Inr ST_YEAR))"

definition add_year :: "(string \<Rightarrow> int option) \<Rightarrow> ('c, 'f) world \<Rightarrow> string \<Rightarrow> ('c, 'f) world \<times> (error + conv_state)" where
  "add_year py_int w reply =
     raising (to_value (py_int reply)) w (\<lambda>year.
     raising (store_new_object w (\<lambda>n. n\<lparr>new_year := Some year\<rparr>)) w (\<lambda>w1.
       (fst (send_message w1 (Prompt ST_DESCRIPTION [])), Inr ST_DESCRIPTION)))"

definition add_description :: "('c, 'f) world \<Rightarrow> string \<Rightarrow> ('c, 'f) world \<times> (error + conv_state)" where
  "add_description w reply =
     raising (store_new_object w (\<lambda>n. n\<lparr>new_description := Some reply\<rparr>)) w (\<lambda>w1.
       (fst (send_message w1 (Prompt ST_URL [])), Inr ST_URL))"

definition add_url :: "('c, 'f) world \<Rightarrow> string \<Rightarrow> ('c, 'f) world \<times> (error + conv_state)" where
  "add_url w reply =
     raising (store_new_object w (\<lambda>n. n\<lparr>new_url := Some reply\<rparr>)) w (\<lambda>w1.
       (fst (send_message w1 (Prompt ST_IMAGE [])), Inr ST_IMAGE))"

definition add_image :: "('c, 'f) world \<Rightarrow> string \<Rightarrow> ('c, 'f) world \<times> (error + conv_state)" where
  "add_image w reply =
     raising (store_new_object w (\<lambda>n. n\<lparr>new_image := Some reply\<rparr>)) w (\<lambda>w1.
       (fst (send_message w1 (Prompt ST_ADMIN_RATING [])), Inr ST_ADMIN_RATING))"

definition add_admin_rating :: "(string \<Rightarrow> 'f option) \<Rightarrow> ('c, 'f) world \<Rightarrow> string \<Rightarrow> ('c, 'f) world \<times> (error + conv_state)" where
  "add_admin_rating py_float w reply =
     raising (to_value (py_float (replace_comma reply))) w (\<lambda>rating.
     raising (store_new_object w (\<lambda>n. n\<lparr>new_admin_rating := Some rating\<rparr>)) w (\<lambda>w1.
       (fst (send_message w1 (Prompt ST_SITE_RATING [])), Inr ST_SITE_RATING)))"

text \<open>
  \<^verbatim>\<open>add_site_rating\<close> also reads the genres already used for the object's type, to show
  them in the next prompt.
\<close>

definition add_site_rating :: "(string \<Rightarrow> 'f option) \<Rightarrow> ('c, 'f) world \<Rightarrow> string \<Rightarrow> ('c, 'f) world \<times> (error + conv_state)" where
  "add_site_rating py_float w reply =
     raising (to_value (py_float (replace_comma reply))) w (\<lambda>rating.
     raising (store_new_object w (\<lambda>n. n\<lparr>new_site_rating := Some rating\<rparr>)) w (\<lambda>w1.
     raising (case new_object (user_data w1) of
                None \<Rightarrow> Inl KeyError
              | Some n \<Rightarrow> (case new_type n of None \<Rightarrow> Inl KeyError | Some ty \<Rightarrow> Inr ty)) w1 (\<lambda>ty.
       (fst (send_message w1 (Prompt ST_GENRES (get_category_genres (bot_db w1) ty))), Inr ST_GENRES))))"

definition cancel :: "('c, 'f) world \<Rightarrow> ('c, 'f) world \<times> (error + conv_state)" where
  "cancel w = (fst (send_message w Cancelled), Inr ConversationHandler_END)"

section \<open>Sequences of stack operations and sample data\<close>

text \<open>
  The four things a handler does to the message stack, to speak about every sequence
  of them: a new level, a recorded handle, a pop, and the drain loop.
\<close>

datatype stack_op = Push | Record int | Pop | Drain

fun run_stack_op :: "('c, 'f) world \<Rightarrow> stack_op \<Rightarrow> ('c, 'f) world" where
  "run_stack_op w Push = push_new_message_level w"
| "run_stack_op w (Record message_id) = add_message_to_stack w message_id"
| "run_stack_op w Pop = pop_and_delete_messages w"
| "run_stack_op w Drain = drain w"

text \<open>The handles some level of the stack holds, and a handle no level holds and no call deleted.\<close>

definition tracked :: "('c, 'f) world \<Rightarrow> int set" where
  "tracked w = \<Union> (set (map set (levels (user_data w))))"

definition untouched :: "int \<Rightarrow> ('c, 'f) world \<Rightarrow> bool" where
  "untouched m w = (m \<notin> tracked w \<and> Deleted m \<notin> set (transport w))"

text \<open>
  Sample stores and sessions for the closed examples: a database file without
  tables, and a small catalog of two films and one series, two genres, and one view
  of user 7.
\<close>

definition no_tables :: "unit database" where
  "no_tables = \<lparr> objects = None, genres = None, object_genres = None, user_views = None \<rparr>"

definition small_catalog :: "unit database" where
  "small_catalog =
     \<lparr> objects = Some [\<lparr>row_id = 1, obj_type = Some type_film, cols = ()\<rparr>,
                       \<lparr>row_id = 2, obj_type = Some type_film, cols = ()\<rparr>,
                       \<lparr>row_id = 3, obj_type = Some type_series, cols = ()\<rparr>],
       genres = Some [(1, ''drama''), (2, ''comedy'')],
       object_genres = Some [(1, 1), (1, 2), (2, 1)],
       user_views = Some [(7, 1)] \<rparr>"

definition world_with :: "(unit, rat) session \<Rightarrow> unit database \<Rightarrow> (unit, rat) world" where
  "world_with s d = \<lparr> user_data = s, bot_db = d, next_message_id = 100, transport = [] \<rparr>"

definition press :: "int \<Rightarrow> string \<Rightarrow> callback_query" where
  "press user payload = \<lparr> from_user_id = user, chat_id = user, data = payload \<rparr>"

text \<open>
  The session after \<^verbatim>\<open>/start\<close>, the recommendations menu and a press of
  \<^verbatim>\<open>category:series\<close>: both dictionaries exist and hold the key \<^verbatim>\<open>series\<close> only.
\<close>

definition series_chosen :: "(unit, rat) session" where
  "series_chosen =
     cleared\<lparr> message_stack := Some [[102]], current_category := Some ''series'',
              selected_genres := Some [''series'' \<mapsto> []],
              viewed_filter := Some [''series'' \<mapsto> False] \<rparr>"

text \<open>A session that shows the third page (index 2) of twelve cached films.\<close>

definition twelve_films :: "unit cached list" where
  "twelve_films =
     map (\<lambda>i. \<lparr> row = \<lparr>row_id = i, obj_type = Some type_film, cols = ()\<rparr>, obj_genres = None \<rparr>)
       [1, 2, 3, 4, 5, 6, 7, 8, 9, 10, 11, 12]"

definition browsing :: "(unit, rat) session" where
  "browsing =
     cleared\<lparr> message_stack := Some [[103, 104, 105]], current_category := Some ''films'',
              selected_genres := Some [''films'' \<mapsto> []],
              viewed_filter := Some [''films'' \<mapsto> False],
              results_cache := Some twelve_films, results_page := Some 2 \<rparr>"

text \<open>
  The conversation's state after a handler has run: the library that drives the
  handlers (\<^verbatim>\<open>ConversationHandler\<close> of python-telegram-bot) moves to the state the
  callback returns, and keeps the current state when the callback raises.
\<close>

definition conversation_state_after :: "conv_state \<Rightarrow> error + conv_state \<Rightarrow> conv_state" where
  "conversation_state_after current outcome = (case outcome of Inl e \<Rightarrow> current | Inr s \<Rightarrow> s)"

text \<open>A session in the middle of the data entry: type and name are given, the year is asked.\<close>

definition entering :: "(unit, rat) session" where
  "entering =
     cleared\<lparr> message_stack := Some [[101]],
              new_object := Some \<lparr> new_type = Some type_film, new_name = Some ''X'', new_year = None,
                                   new_description = None, new_url = None, new_image = None,
                                   new_admin_rating = None, new_site_rating = None,
                                   new_genres = None \<rparr> \<rparr>"

text \<open>No list of selected genres holds a genre twice.\<close>

definition genres_distinct :: "('c, 'f) session \<Rightarrow> bool" where
  "genres_distinct s =
     (\<forall>m category gs. selected_genres s = Some m \<longrightarrow> m category = Some gs \<longrightarrow> distinct gs)"

section \<open>Properties\<close>

subsection \<open>The filtered count\<close>

lemma length_filter_mono:
  assumes "\<And>x. x \<in> set xs \<Longrightarrow> P x \<Longrightarrow> Q x"
  shows "length (filter P xs) \<le> length (filter Q xs)"
  using assms by (induction xs) auto

lemma where_filter_subset:
  assumes "set G1 \<subseteq> set G2" and "where_filter d ty G2 viewed u ob"
  shows "where_filter d ty G1 viewed u ob"
  using assms unfolding where_filter_def list_all_iff by (auto split: if_splits)

lemma missing_table_subset:
  assumes "set G1 \<subseteq> set G2" and "missing_table d G1 viewed"
  shows "missing_table d G2 viewed"
  using assms unfolding missing_table_def by auto

text \<open>
  Claim C2. For every store, category, user and viewed flag, and all genre lists
  \<open>G1\<close>, \<open>G2\<close> with every genre of \<open>G1\<close> in \<open>G2\<close>, the count filtered by \<open>G2\<close> is at most
  the count filtered by \<open>G1\<close>: an object is counted only when it carries every genre
  of the list, so a longer list never counts more. This holds also when tables are
  missing (the count is then 0).
\<close>

theorem count_filtered_antitone:
  assumes "set G1 \<subseteq> set G2"
  shows "count_filtered_objects d category G2 viewed user_id
           \<le> count_filtered_objects d category G1 viewed user_id"
proof (cases "missing_table d G2 viewed")
  case True
  then show ?thesis by (simp add: count_filtered_objects_def select_filtered_def)
next
  case False
  with assms have present: "\<not> missing_table d G1 viewed"
    using missing_table_subset by blast
  have "length (filter (where_filter d (category_map category) G2 viewed user_id) (table (objects d)))
          \<le> length (filter (where_filter d (category_map category) G1 viewed user_id) (table (objects d)))"
    by (rule length_filter_mono) (rule where_filter_subset [OF assms])
  with False present show ?thesis
    by (simp add: count_filtered_objects_def select_filtered_def)
qed

theorem count_filtered_antitone_witness:
  "set [''drama''] \<subseteq> set [''drama'', ''comedy'']
   \<and> count_filtered_objects small_catalog ''films'' [''drama'', ''comedy''] False 7 = 1
   \<and> count_filtered_objects small_catalog ''films'' [''drama''] False 7 = 2
   \<and> count_filtered_objects small_catalog ''films'' [''drama'', ''comedy''] False 7
        \<le> count_filtered_objects small_catalog ''films'' [''drama''] False 7"
  using count_filtered_antitone [of "[''drama'']" "[''drama'', ''comedy'']" small_catalog "''films''" False 7]
  by (simp add: count_filtered_objects_def select_filtered_def missing_table_def where_filter_def
      small_catalog_def table_def category_map_def genre_subquery_def type_film_def type_series_def)

subsection \<open>Unknown actions\<close>

lemma str_split_nonempty: "str_split s \<noteq> []"
  by (induction s) (auto split: list.splits)

text \<open>
  Claim C9. A payload whose action (the text before the first colon) is none of
  \<^verbatim>\<open>admin\<close>, \<^verbatim>\<open>category\<close>, \<^verbatim>\<open>genre\<close>, \<^verbatim>\<open>delete\<close>, \<^verbatim>\<open>select\<close>, \<^verbatim>\<open>page\<close>, \<^verbatim>\<open>view\<close>, \<^verbatim>\<open>unview\<close>,
  \<^verbatim>\<open>back\<close> is ignored by \<^verbatim>\<open>button\<close>: the handler returns normally (\<^verbatim>\<open>None\<close>), and the
  session and the store are unchanged; the only effect is the \<^verbatim>\<open>query.answer()\<close> every
  press gets.
\<close>

theorem unknown_action_ignored:
  assumes "hd (str_split (data query)) \<notin> set [''admin'', ''category'', ''genre'', ''delete'', ''select'',
             ''page'', ''view'', ''unview'', ''back'']"
  shows "button ADMIN_IDS py_int w query = (emit w Answered, Inr None)
       \<and> user_data (fst (button ADMIN_IDS py_int w query)) = user_data w
       \<and> bot_db (fst (button ADMIN_IDS py_int w query)) = bot_db w"
proof -
  obtain action rest where p: "str_split (data query) = action # rest"
    using str_split_nonempty by (cases "str_split (data query)") auto
  with assms have "button ADMIN_IDS py_int w query = (emit w Answered, Inr None)"
    by (simp add: button_def index_def raising_def Let_def)
  then show ?thesis by (simp add: emit_def)
qed

theorem unknown_action_ignored_witness:
  "hd (str_split (data (press 7 ''foo:bar''))) \<notin> set [''admin'', ''category'', ''genre'', ''delete'', ''select'',
             ''page'', ''view'', ''unview'', ''back'']
   \<and> button [] ascii_int (world_with cleared small_catalog) (press 7 ''foo:bar'')
       = (emit (world_with cleared small_catalog) Answered, Inr None)"
  using unknown_action_ignored [of "press 7 ''foo:bar''" "[]" ascii_int "world_with cleared small_catalog"]
  by (simp add: press_def)

subsection \<open>The empty message stack\<close>

lemma levels_message_stack [simp]: "levels (s\<lparr>message_stack := Some st\<rparr>) = st"
  by (simp add: levels_def)

lemma untouched_pop: "untouched m w \<Longrightarrow> untouched m (pop_and_delete_messages w)"
  unfolding untouched_def tracked_def pop_and_delete_messages_def
  by (cases "levels (user_data w)" rule: rev_cases) auto

lemma untouched_push: "untouched m w \<Longrightarrow> untouched m (push_new_message_level w)"
  unfolding untouched_def tracked_def push_new_message_level_def
  by auto

lemma untouched_add: "untouched m w \<Longrightarrow> m' \<noteq> m \<Longrightarrow> untouched m (add_message_to_stack w m')"
  unfolding untouched_def tracked_def add_message_to_stack_def
  by (cases "levels (user_data w)" rule: rev_cases) auto

lemma untouched_drain: "untouched m w \<Longrightarrow> untouched m (drain w)"
proof (induction w rule: drain.induct)
  case (1 w)
  show ?case
  proof (cases "levels (user_data w) \<noteq> []")
    case True
    then have "drain w = drain (pop_and_delete_messages w)"
      by (subst drain.simps) simp
    with True 1 show ?thesis by (simp add: untouched_pop)
  next
    case False
    then have "drain w = w" by (subst drain.simps) simp
    with 1 show ?thesis by simp
  qed
qed

lemma untouched_run:
  "untouched m w \<Longrightarrow> Record m \<notin> set ops \<Longrightarrow> untouched m (foldl run_stack_op w ops)"
proof (induction ops arbitrary: w)
  case Nil
  then show ?case by simp
next
  case (Cons op ops)
  have "untouched m (run_stack_op w op)"
    using Cons.prems
    by (cases op) (auto simp: untouched_pop untouched_push untouched_add untouched_drain)
  with Cons show ?case by simp
qed

text \<open>
  Claim C10. When the message stack is empty (the key is absent, or the list has no
  level), \<^verbatim>\<open>pop_and_delete_messages\<close> changes nothing: no message is deleted and the
  stack stays as it is; \<^verbatim>\<open>add_message_to_stack\<close> changes nothing either, so the handle
  is not recorded and no level is created; and whatever pushes, records of other
  handles, pops and drains follow, a handle that no call had deleted before is never
  deleted.
\<close>

theorem empty_stack_pop_and_record:
  assumes "levels (user_data w) = []"
    and "Deleted m \<notin> set (transport w)"
    and "Record m \<notin> set later"
  shows "pop_and_delete_messages w = w
       \<and> add_message_to_stack w m = w
       \<and> Deleted m \<notin> set (transport (foldl run_stack_op (add_message_to_stack w m) later))"
proof -
  have a: "add_message_to_stack w m = w"
    using assms(1) by (simp add: add_message_to_stack_def)
  have p: "pop_and_delete_messages w = w"
    using assms(1) by (simp add: pop_and_delete_messages_def)
  have "untouched m w"
    using assms(1,2) by (simp add: untouched_def tracked_def)
  then have "untouched m (foldl run_stack_op w later)"
    using assms(3) by (rule untouched_run)
  with a p show ?thesis by (simp add: untouched_def)
qed

theorem empty_stack_pop_and_record_witness:
  "levels (user_data (world_with cleared no_tables)) = []
   \<and> Deleted 41 \<notin> set (transport (world_with cleared no_tables))
   \<and> Record 41 \<notin> set [Push, Record 42, Pop, Drain]
   \<and> pop_and_delete_messages (world_with cleared no_tables) = world_with cleared no_tables
   \<and> add_message_to_stack (world_with cleared no_tables) 41 = world_with cleared no_tables
   \<and> Deleted 41 \<notin> set (transport (foldl run_stack_op
         (add_message_to_stack (world_with cleared no_tables) 41) [Push, Record 42, Pop, Drain]))"
proof -
  have h1: "levels (user_data (world_with cleared no_tables)) = []"
    by (simp add: world_with_def cleared_def levels_def)
  have h2: "Deleted 41 \<notin> set (transport (world_with cleared no_tables))"
    by (simp add: world_with_def)
  have h3: "Record 41 \<notin> set [Push, Record 42, Pop, Drain]"
    by simp
  show ?thesis
    using h1 h2 h3 empty_stack_pop_and_record [OF h1 h2 h3] by blast
qed

subsection \<open>The branches of the dispatcher\<close>

lemma button_category_dispatch:
  "str_split (data query) = ''category'' # rest \<Longrightarrow>
   button ADMIN_IDS py_int w query = button_category (emit w Answered) query (''category'' # rest)"
  by (simp add: button_def index_def raising_def Let_def)

lemma button_genre_dispatch:
  "str_split (data query) = ''genre'' # rest \<Longrightarrow>
   button ADMIN_IDS py_int w query = button_genre (emit w Answered) query (''genre'' # rest)"
  by (simp add: button_def index_def raising_def Let_def)

lemma button_select_dispatch:
  "str_split (data query) = ''select'' # rest \<Longrightarrow>
   button ADMIN_IDS py_int w query = button_select ADMIN_IDS (emit w Answered) query (''select'' # rest)"
  by (simp add: button_def index_def raising_def Let_def)

lemma button_page_dispatch:
  "str_split (data query) = ''page'' # rest \<Longrightarrow>
   button ADMIN_IDS py_int w query = button_page ADMIN_IDS py_int (emit w Answered) query (''page'' # rest)"
  by (simp add: button_def index_def raising_def Let_def)

lemma button_view_dispatch:
  "str_split (data query) = ''view'' # rest \<Longrightarrow>
   button ADMIN_IDS py_int w query = button_view ADMIN_IDS py_int (emit w Answered) query (''view'' # rest)"
  by (simp add: button_def index_def raising_def Let_def)

lemma button_unview_dispatch:
  "str_split (data query) = ''unview'' # rest \<Longrightarrow>
   button ADMIN_IDS py_int w query = button_unview ADMIN_IDS py_int (emit w Answered) query (''unview'' # rest)"
  by (simp add: button_def index_def raising_def Let_def)

lemma button_admin_dispatch:
  "str_split (data query) = ''admin'' # rest \<Longrightarrow>
   button ADMIN_IDS py_int w query =
     (case rest of
        [] \<Rightarrow> (emit w Answered, Inl IndexError)
      | what # others \<Rightarrow> button_admin ADMIN_IDS (emit w Answered) query what)"
  by (simp add: button_def index_def raising_def Let_def split: list.splits)

lemma button_delete_dispatch:
  "str_split (data query) = ''delete'' # rest \<Longrightarrow>
   button ADMIN_IDS py_int w query = button_delete ADMIN_IDS py_int (emit w Answered) query (''delete'' # rest)"
  by (simp add: button_def index_def raising_def Let_def)

lemma button_back_dispatch:
  "str_split (data query) = ''back'' # rest \<Longrightarrow>
   button ADMIN_IDS py_int w query = button_back ADMIN_IDS (emit w Answered) query (''back'' # rest)"
  by (simp add: button_def index_def raising_def Let_def)

lemma button_other_dispatch:
  "str_split (data query) = action # rest \<Longrightarrow>
   action \<notin> set [''admin'', ''category'', ''genre'', ''delete'', ''select'', ''page'', ''view'', ''unview'', ''back''] \<Longrightarrow>
   button ADMIN_IDS py_int w query = (emit w Answered, Inr None)"
  by (simp add: button_def index_def raising_def Let_def)

lemma ascii_int_3: "ascii_int ''3'' = Some 3"
  by (simp add: ascii_int_def strip_def is_space_def digits_def is_digit_def digit_val_def)

lemma drain_empty: "levels (user_data w) = [] \<Longrightarrow> drain w = w"
  by (subst drain.simps) simp

subsection \<open>A category that was never opened\<close>

text \<open>
  The session \<open>series_chosen\<close> is the one a user has after \<^verbatim>\<open>/start\<close>, the
  recommendations menu and \<^verbatim>\<open>category:series\<close>.
\<close>

lemma series_chosen_reachable:
  "user_data (fst (button [] ascii_int
      (show_recommendations [] (start (world_with cleared small_catalog)) 7 1)
      (press 7 ''category:series''))) = series_chosen"
proof -
  have s: "str_split (data (press 7 ''category:series'')) = [''category'', ''series'']"
    by (simp add: press_def)
  have d: "drain (emit (start (world_with cleared small_catalog)) (Deleted 1))
             = emit (start (world_with cleared small_catalog)) (Deleted 1)"
    by (rule drain_empty) (simp add: emit_def start_def send_message_def levels_def)
  have r: "show_recommendations [] (start (world_with cleared small_catalog)) 7 1
          = \<lparr> user_data = cleared\<lparr>message_stack := Some [[101]]\<rparr>, bot_db = small_catalog,
              next_message_id = 102,
              transport = [Sent 100 Greeting, Deleted 1,
                           Sent 101 (RecommendationsMenu (get_recommendations_keyboard [] 7))] \<rparr>"
    unfolding show_recommendations_def Let_def d
    by (simp add: start_def send_message_def emit_def push_new_message_level_def
        add_message_to_stack_def levels_def world_with_def cleared_def)
  show ?thesis
    unfolding button_category_dispatch [OF s] r
    by (simp add: button_category_def raising_def index_def Let_def
        send_message_def emit_def push_new_message_level_def add_message_to_stack_def
        pop_and_delete_messages_def levels_def cleared_def series_chosen_def get_or_def)
qed

text \<open>
  Claim C7 says that touching a category's genre set or viewed flag never fails with
  a missing key, also when the dictionary exists but lacks the category. The
  \<^verbatim>\<open>category\<close> branch creates the key, but the \<^verbatim>\<open>genre\<close> branch creates only a whole
  dictionary that is absent: in the session \<open>series_chosen\<close>, a press of a (still
  displayed) button \<^verbatim>\<open>genre:films:drama\<close> or \<^verbatim>\<open>genre:films:_viewed_\<close> raises \<^verbatim>\<open>KeyError\<close>.
\<close>

theorem genre_press_missing_category:
  "snd (button [] ascii_int (world_with series_chosen small_catalog) (press 7 ''genre:films:drama''))
     = Inl KeyError
   \<and> snd (button [] ascii_int (world_with series_chosen small_catalog) (press 7 ''genre:films:_viewed_''))
     = Inl KeyError"
proof -
  have s1: "str_split (data (press 7 ''genre:films:drama'')) = [''genre'', ''films'', ''drama'']"
    by (simp add: press_def)
  have s2: "str_split (data (press 7 ''genre:films:_viewed_'')) = [''genre'', ''films'', ''_viewed_'']"
    by (simp add: press_def)
  have "snd (button [] ascii_int (world_with series_chosen small_catalog) (press 7 ''genre:films:drama''))
     = Inl KeyError"
    unfolding button_genre_dispatch [OF s1]
    by (simp add: button_genre_def raising_def index_def lookup_def toggle_def emit_def
        world_with_def series_chosen_def cleared_def)
  moreover
  have "snd (button [] ascii_int (world_with series_chosen small_catalog) (press 7 ''genre:films:_viewed_''))
     = Inl KeyError"
    unfolding button_genre_dispatch [OF s2]
    by (simp add: button_genre_def raising_def index_def lookup_def toggle_def emit_def
        world_with_def series_chosen_def cleared_def)
  ultimately show ?thesis by simp
qed

subsection \<open>A store without its tables\<close>

text \<open>
  Claim C4 says that every read of the catalog returns an empty result when the
  store fails. On a database file without tables the three read functions do
  (\<^verbatim>\<open>count_filtered_objects\<close> gives 0, \<^verbatim>\<open>get_available_genres\<close> and
  \<^verbatim>\<open>get_category_genres\<close> give the empty list), but the \<^verbatim>\<open>select\<close> branch of \<^verbatim>\<open>button\<close>
  runs its statement outside any \<^verbatim>\<open>try\<close>: the \<^verbatim>\<open>OperationalError\<close> leaves the handler,
  after \<^verbatim>\<open>query.answer()\<close> and before anything else.
\<close>

theorem select_without_tables:
  "button [] ascii_int (world_with series_chosen no_tables) (press 7 ''select:series'')
     = (emit (world_with series_chosen no_tables) Answered, Inl OperationalError)
   \<and> count_filtered_objects no_tables ''series'' [] False 7 = 0
   \<and> get_available_genres no_tables ''series'' [] False 7 = []
   \<and> get_category_genres no_tables type_series = []"
proof -
  have s: "str_split (data (press 7 ''select:series'')) = [''select'', ''series'']"
    by (simp add: press_def)
  have "select_filtered no_tables ''series'' [] False 7 = Inl OperationalError"
    by (simp add: select_filtered_def missing_table_def no_tables_def)
  then have "button [] ascii_int (world_with series_chosen no_tables) (press 7 ''select:series'')
     = (emit (world_with series_chosen no_tables) Answered, Inl OperationalError)"
    unfolding button_select_dispatch [OF s]
    by (simp add: button_select_def raising_def index_def get_or_def
        emit_def world_with_def series_chosen_def cleared_def press_def)
  moreover have "count_filtered_objects no_tables ''series'' [] False 7 = 0"
    by (simp add: count_filtered_objects_def select_filtered_def missing_table_def no_tables_def)
  moreover have "get_available_genres no_tables ''series'' [] False 7 = []"
    by (simp add: get_available_genres_def no_tables_def)
  moreover have "get_category_genres no_tables type_series = []"
    by (simp add: get_category_genres_def no_tables_def)
  ultimately show ?thesis by simp
qed

text \<open>
  Claim C5 says that every write is tried again once after \<^verbatim>\<open>setup_database\<close> and
  that a second failure is shown to the user. The \<^verbatim>\<open>view\<close>, \<^verbatim>\<open>unview\<close> and \<^verbatim>\<open>delete\<close>
  branches of \<^verbatim>\<open>button\<close> have no \<^verbatim>\<open>try\<close> around their statements: on a database file
  without tables the \<^verbatim>\<open>OperationalError\<close> leaves the handler at once. The tables are
  still missing afterwards (nothing was set up, nothing tried again), and the only
  transport call is the \<^verbatim>\<open>query.answer()\<close> made before the write (no notice is sent).
\<close>

theorem view_without_tables:
  "button [] ascii_int (world_with series_chosen no_tables) (press 7 ''view:series:3'')
     = (emit (world_with series_chosen no_tables) Answered, Inl OperationalError)
   \<and> button [] ascii_int (world_with series_chosen no_tables) (press 7 ''unview:series:3'')
     = (emit (world_with series_chosen no_tables) Answered, Inl OperationalError)
   \<and> button [7] ascii_int (world_with series_chosen no_tables) (press 7 ''delete:series:3'')
     = (emit (world_with series_chosen no_tables) Answered, Inl OperationalError)"
proof -
  have s1: "str_split (data (press 7 ''view:series:3'')) = [''view'', ''series'', ''3'']"
    by (simp add: press_def)
  have s2: "str_split (data (press 7 ''unview:series:3'')) = [''unview'', ''series'', ''3'']"
    by (simp add: press_def)
  have s3: "str_split (data (press 7 ''delete:series:3'')) = [''delete'', ''series'', ''3'']"
    by (simp add: press_def)
  have i: "insert_view no_tables 7 3 = Inl OperationalError"
    by (simp add: insert_view_def no_tables_def)
  have d: "delete_view no_tables 7 3 = Inl OperationalError"
    by (simp add: delete_view_def no_tables_def)
  have o: "delete_object no_tables 3 = Inl OperationalError"
    by (simp add: delete_object_def no_tables_def)
  have "button [] ascii_int (world_with series_chosen no_tables) (press 7 ''view:series:3'')
     = (emit (world_with series_chosen no_tables) Answered, Inl OperationalError)"
    unfolding button_view_dispatch [OF s1]
    using i by (simp add: button_view_def raising_def index_def to_value_def
        ascii_int_3 emit_def world_with_def press_def)
  moreover
  have "button [] ascii_int (world_with series_chosen no_tables) (press 7 ''unview:series:3'')
     = (emit (world_with series_chosen no_tables) Answered, Inl OperationalError)"
    unfolding button_unview_dispatch [OF s2]
    using d by (simp add: button_unview_def raising_def index_def to_value_def
        ascii_int_3 emit_def world_with_def press_def)
  moreover
  have "button [7] ascii_int (world_with series_chosen no_tables) (press 7 ''delete:series:3'')
     = (emit (world_with series_chosen no_tables) Answered, Inl OperationalError)"
    unfolding button_delete_dispatch [OF s3]
    using o by (simp add: button_delete_def raising_def index_def to_value_def is_admin_def
        ascii_int_3 emit_def world_with_def press_def)
  ultimately show ?thesis by simp
qed

subsection \<open>Toggling a genre twice\<close>

text \<open>
  The genre dictionary after one press of \<^verbatim>\<open>genre:c:g\<close>, whatever else the press does and
  whether or not it ends in an exception.
\<close>

lemma genre_press_selected:
  assumes "str_split (data query) = [''genre'', c, g]"
  shows "selected_genres (user_data (fst (button ADMIN_IDS py_int w query))) =
     (case selected_genres (user_data w) of
        None \<Rightarrow> Some [c \<mapsto> (if g = ''_viewed_'' then [] else [g])]
      | Some m \<Rightarrow>
          (case m c of
             None \<Rightarrow> Some m
           | Some gs \<Rightarrow>
               Some (if g = ''_viewed_'' then m
                     else m(c \<mapsto> (if g \<in> set gs then remove1 g gs else gs @ [g])))))"
  unfolding button_genre_dispatch [OF assms]
  by (auto simp: button_genre_def raising_def index_def toggle_def lookup_def emit_def Let_def
      split: option.splits sum.splits)

lemma toggle_twice_set:
  assumes "distinct gs"
  shows "set (let gs' = (if g \<in> set gs then remove1 g gs else gs @ [g])
              in (if g \<in> set gs' then remove1 g gs' else gs' @ [g])) = set gs"
  using assms by (auto simp: Let_def)

text \<open>
  Claim C6. For every session, category and genre name, two presses of the same
  \<^verbatim>\<open>genre:category:genre\<close> button in succession leave the set of selected genres of the
  category as it was: a genre in the list is removed and then appended, one not in
  the list is appended and then removed. The list of a category holds no genre
  twice, which is the hypothesis \<open>distinct\<close>: the lists start empty and \<^verbatim>\<open>button\<close>
  keeps them free of duplicates (lemmas \<open>cleared_distinct\<close>, \<open>button_distinct\<close> and
  \<open>genres_distinct_get_or\<close> below). A category without a list counts as the empty
  set.
\<close>

theorem toggle_twice_same_set:
  assumes "str_split (data query) = [''genre'', category, genre]"
    and "distinct (get_or (selected_genres (user_data w)) category [])"
  shows "set (get_or (selected_genres (user_data
            (fst (button ADMIN_IDS py_int (fst (button ADMIN_IDS py_int w query)) query)))) category [])
         = set (get_or (selected_genres (user_data w)) category [])"
proof (cases "selected_genres (user_data w)")
  case None
  then show ?thesis
    by (simp add: genre_press_selected [OF assms(1)] get_or_def)
next
  case (Some m)
  show ?thesis
  proof (cases "m category")
    case None
    with Some show ?thesis
      by (simp add: genre_press_selected [OF assms(1)] get_or_def)
  next
    case (Some gs)
    with \<open>selected_genres (user_data w) = Some m\<close> assms(2) have "distinct gs"
      by (simp add: get_or_def)
    from toggle_twice_set [OF this, of genre]
    show ?thesis
      using Some \<open>selected_genres (user_data w) = Some m\<close>
      by (simp add: genre_press_selected [OF assms(1)] get_or_def Let_def split: if_splits)
  qed
qed

theorem toggle_twice_same_set_witness:
  "str_split (data (press 7 ''genre:series:drama'')) = [''genre'', ''series'', ''drama'']
   \<and> distinct (get_or (selected_genres (user_data (world_with series_chosen small_catalog))) ''series'' [])
   \<and> set (get_or (selected_genres (user_data
            (fst (button [] ascii_int
               (fst (button [] ascii_int (world_with series_chosen small_catalog)
                       (press 7 ''genre:series:drama'')))
               (press 7 ''genre:series:drama''))))) ''series'' [])
       = set (get_or (selected_genres (user_data (world_with series_chosen small_catalog))) ''series'' [])"
proof -
  have h1: "str_split (data (press 7 ''genre:series:drama'')) = [''genre'', ''series'', ''drama'']"
    by (simp add: press_def)
  have h2: "distinct (get_or (selected_genres (user_data (world_with series_chosen small_catalog)))
              ''series'' [])"
    by (simp add: get_or_def world_with_def series_chosen_def cleared_def)
  show ?thesis
    using h1 h2 toggle_twice_same_set [OF h1 h2, of "[]" ascii_int] by blast
qed

subsection \<open>Marking and unmarking an object\<close>

lemma refresh_card_db: "bot_db (fst (refresh_card ADMIN_IDS w c object_id user_id v)) = bot_db w"
  by (simp add: refresh_card_def raising_def emit_def Let_def split: option.splits sum.splits)

lemma refresh_card_ok:
  "genres (bot_db w) \<noteq> None \<Longrightarrow> object_genres (bot_db w) \<noteq> None \<Longrightarrow>
   snd (refresh_card ADMIN_IDS w c object_id user_id v) = Inr None"
  by (auto simp: refresh_card_def raising_def object_genre_names_def emit_def Let_def split: option.splits)

lemma view_press:
  assumes "str_split (data query) = [''view'', c, n]" and "py_int n = Some object_id"
  shows "button ADMIN_IDS py_int w query =
     (case insert_view (bot_db w) (from_user_id query) object_id of
        Inl e \<Rightarrow> (emit w Answered, Inl e)
      | Inr d \<Rightarrow> refresh_card ADMIN_IDS (emit (emit w Answered\<lparr>bot_db := d\<rparr>) Answered) c object_id
                   (from_user_id query) True)"
  unfolding button_view_dispatch [OF assms(1)]
  using assms(2)
  by (simp add: button_view_def raising_def index_def to_value_def emit_def Let_def split: sum.splits)

lemma unview_press:
  assumes "str_split (data query) = [''unview'', c, n]" and "py_int n = Some object_id"
  shows "button ADMIN_IDS py_int w query =
     (case delete_view (bot_db w) (from_user_id query) object_id of
        Inl e \<Rightarrow> (emit w Answered, Inl e)
      | Inr d \<Rightarrow> refresh_card ADMIN_IDS (emit (emit w Answered\<lparr>bot_db := d\<rparr>) Answered) c object_id
                   (from_user_id query) False)"
  unfolding button_unview_dispatch [OF assms(1)]
  using assms(2)
  by (simp add: button_unview_def raising_def index_def to_value_def emit_def Let_def split: sum.splits)

lemma view_press_db:
  assumes "str_split (data query) = [''view'', c, n]" and "py_int n = Some object_id"
  shows "bot_db (fst (button ADMIN_IDS py_int w query)) =
     (case insert_view (bot_db w) (from_user_id query) object_id of Inl e \<Rightarrow> bot_db w | Inr d \<Rightarrow> d)"
  by (simp add: view_press [where py_int = py_int, OF assms] refresh_card_db emit_def split: sum.splits)

lemma unview_press_db:
  assumes "str_split (data query) = [''unview'', c, n]" and "py_int n = Some object_id"
  shows "bot_db (fst (button ADMIN_IDS py_int w query)) =
     (case delete_view (bot_db w) (from_user_id query) object_id of Inl e \<Rightarrow> bot_db w | Inr d \<Rightarrow> d)"
  by (simp add: unview_press [where py_int = py_int, OF assms] refresh_card_db emit_def split: sum.splits)

lemma insert_then_delete_view:
  assumes "(u, ob) \<notin> set (table (user_views d))"
    and "d1 = (case insert_view d u ob of Inl e \<Rightarrow> d | Inr d' \<Rightarrow> d')"
  shows "(case delete_view d1 u ob of Inl e \<Rightarrow> d1 | Inr d'' \<Rightarrow> d'') = d"
proof (cases "user_views d")
  case None
  then show ?thesis by (simp add: assms(2) insert_view_def delete_view_def)
next
  case (Some uvs)
  with assms(1) have "filter (\<lambda>v. v \<noteq> (u, ob)) uvs = uvs"
    by (auto simp: table_def intro: filter_True)
  with Some assms(1) show ?thesis
    by (simp add: assms(2) insert_view_def delete_view_def table_def)
qed

lemma insert_view_present:
  "(u, ob) \<in> set (table (user_views d)) \<Longrightarrow> insert_view d u ob = Inr d"
  by (cases "user_views d") (simp_all add: insert_view_def table_def)

lemma delete_view_absent:
  assumes "(u, ob) \<notin> set (table (user_views d))"
  shows "(case delete_view d u ob of Inl e \<Rightarrow> d | Inr d' \<Rightarrow> d') = d"
proof (cases "user_views d")
  case None
  then show ?thesis by (simp add: delete_view_def)
next
  case (Some uvs)
  with assms have "filter (\<lambda>v. v \<noteq> (u, ob)) uvs = uvs"
    by (auto simp: table_def intro: filter_True)
  with Some show ?thesis
    by (simp add: delete_view_def)
qed

text \<open>
  Claim C8, amended. The \<^verbatim>\<open>view\<close> branch inserts the pair (user, object) unless it is
  there, the \<^verbatim>\<open>unview\<close> branch deletes it. For a pair that is not in \<^verbatim>\<open>user_views\<close>
  before, a press of \<^verbatim>\<open>view\<close> followed by a press of \<^verbatim>\<open>unview\<close> restores the store, and
  with it the viewed-filtered count of every category and genre list. Marking a
  pair that is already there leaves the store unchanged, and so does unmarking one
  that is not there; neither is an error: with the tables \<^verbatim>\<open>user_views\<close>, \<^verbatim>\<open>genres\<close> and
  \<^verbatim>\<open>object_genres\<close> in place both handlers return normally.
\<close>

theorem view_then_unview_restores:
  assumes "str_split (data v) = [''view'', c1, n1]" and "py_int n1 = Some object_id"
    and "str_split (data u) = [''unview'', c2, n2]" and "py_int n2 = Some object_id"
    and "from_user_id v = user_id" and "from_user_id u = user_id"
  shows "((user_id, object_id) \<notin> set (table (user_views (bot_db w))) \<longrightarrow>
            count_filtered_objects
              (bot_db (fst (button ADMIN_IDS py_int (fst (button ADMIN_IDS py_int w v)) u)))
              category G True user_id
            = count_filtered_objects (bot_db w) category G True user_id)
       \<and> ((user_id, object_id) \<in> set (table (user_views (bot_db w))) \<longrightarrow>
            bot_db (fst (button ADMIN_IDS py_int w v)) = bot_db w)
       \<and> ((user_id, object_id) \<notin> set (table (user_views (bot_db w))) \<longrightarrow>
            bot_db (fst (button ADMIN_IDS py_int w u)) = bot_db w)
       \<and> (user_views (bot_db w) \<noteq> None \<and> genres (bot_db w) \<noteq> None \<and> object_genres (bot_db w) \<noteq> None \<longrightarrow>
            snd (button ADMIN_IDS py_int w v) = Inr None \<and> snd (button ADMIN_IDS py_int w u) = Inr None)"
proof (intro conjI impI)
  assume absent: "(user_id, object_id) \<notin> set (table (user_views (bot_db w)))"
  have d1: "bot_db (fst (button ADMIN_IDS py_int w v))
            = (case insert_view (bot_db w) user_id object_id of Inl e \<Rightarrow> bot_db w | Inr d' \<Rightarrow> d')"
    by (simp add: view_press_db [where py_int = py_int, OF assms(1,2)] assms(5))
  have "bot_db (fst (button ADMIN_IDS py_int (fst (button ADMIN_IDS py_int w v)) u)) = bot_db w"
    using insert_then_delete_view [OF absent d1]
    by (simp add: unview_press_db [where py_int = py_int, OF assms(3,4)] assms(6))
  then show "count_filtered_objects
              (bot_db (fst (button ADMIN_IDS py_int (fst (button ADMIN_IDS py_int w v)) u)))
              category G True user_id
            = count_filtered_objects (bot_db w) category G True user_id"
    by simp
next
  assume "(user_id, object_id) \<in> set (table (user_views (bot_db w)))"
  then show "bot_db (fst (button ADMIN_IDS py_int w v)) = bot_db w"
    by (simp add: view_press_db [where py_int = py_int, OF assms(1,2)] assms(5) insert_view_present)
next
  assume "(user_id, object_id) \<notin> set (table (user_views (bot_db w)))"
  then show "bot_db (fst (button ADMIN_IDS py_int w u)) = bot_db w"
    using delete_view_absent [of user_id object_id "bot_db w"]
    by (simp add: unview_press_db [where py_int = py_int, OF assms(3,4)] assms(6))
next
  assume t: "user_views (bot_db w) \<noteq> None \<and> genres (bot_db w) \<noteq> None \<and> object_genres (bot_db w) \<noteq> None"
  then show "snd (button ADMIN_IDS py_int w v) = Inr None"
    by (auto simp: view_press [where py_int = py_int, OF assms(1,2)] insert_view_def emit_def intro!: refresh_card_ok)
next
  assume t: "user_views (bot_db w) \<noteq> None \<and> genres (bot_db w) \<noteq> None \<and> object_genres (bot_db w) \<noteq> None"
  then show "snd (button ADMIN_IDS py_int w u) = Inr None"
    by (auto simp: unview_press [where py_int = py_int, OF assms(3,4)] delete_view_def emit_def intro!: refresh_card_ok)
qed


lemma ascii_int_1: "ascii_int ''1'' = Some 1"
  by (simp add: ascii_int_def strip_def is_space_def digits_def is_digit_def digit_val_def)

lemma ascii_int_2: "ascii_int ''2'' = Some 2"
  by (simp add: ascii_int_def strip_def is_space_def digits_def is_digit_def digit_val_def)

theorem view_then_unview_restores_witness:
  "str_split (data (press 8 ''view:films:2'')) = [''view'', ''films'', ''2'']
   \<and> str_split (data (press 8 ''unview:films:2'')) = [''unview'', ''films'', ''2'']
   \<and> ascii_int ''2'' = Some 2
   \<and> (8, 2) \<notin> set (table (user_views (bot_db (world_with series_chosen small_catalog))))
   \<and> user_views (bot_db (world_with series_chosen small_catalog)) \<noteq> None
   \<and> genres (bot_db (world_with series_chosen small_catalog)) \<noteq> None
   \<and> object_genres (bot_db (world_with series_chosen small_catalog)) \<noteq> None
   \<and> count_filtered_objects
        (bot_db (fst (button [] ascii_int
                   (fst (button [] ascii_int (world_with series_chosen small_catalog)
                           (press 8 ''view:films:2'')))
                   (press 8 ''unview:films:2''))))
        ''films'' [''drama''] True 8
      = count_filtered_objects (bot_db (world_with series_chosen small_catalog)) ''films'' [''drama''] True 8
   \<and> bot_db (fst (button [] ascii_int (world_with series_chosen small_catalog) (press 8 ''unview:films:2'')))
      = bot_db (world_with series_chosen small_catalog)
   \<and> snd (button [] ascii_int (world_with series_chosen small_catalog) (press 8 ''view:films:2'')) = Inr None
   \<and> snd (button [] ascii_int (world_with series_chosen small_catalog) (press 8 ''unview:films:2'')) = Inr None
   \<and> (7, 1) \<in> set (table (user_views (bot_db (world_with series_chosen small_catalog))))
   \<and> bot_db (fst (button [] ascii_int (world_with series_chosen small_catalog) (press 7 ''view:films:1'')))
      = bot_db (world_with series_chosen small_catalog)"
proof -
  have h1: "str_split (data (press 8 ''view:films:2'')) = [''view'', ''films'', ''2'']"
    by (simp add: press_def)
  have h2: "str_split (data (press 8 ''unview:films:2'')) = [''unview'', ''films'', ''2'']"
    by (simp add: press_def)
  have h3: "from_user_id (press 8 ''view:films:2'') = 8"
    by (simp add: press_def)
  have h4: "from_user_id (press 8 ''unview:films:2'') = 8"
    by (simp add: press_def)
  have absent: "(8, 2) \<notin> set (table (user_views (bot_db (world_with series_chosen small_catalog))))"
    by (simp add: world_with_def small_catalog_def table_def)
  have tables: "user_views (bot_db (world_with series_chosen small_catalog)) \<noteq> None
     \<and> genres (bot_db (world_with series_chosen small_catalog)) \<noteq> None
     \<and> object_genres (bot_db (world_with series_chosen small_catalog)) \<noteq> None"
    by (simp add: world_with_def small_catalog_def)
  have g1: "str_split (data (press 7 ''view:films:1'')) = [''view'', ''films'', ''1'']"
    by (simp add: press_def)
  have g2: "str_split (data (press 7 ''unview:films:1'')) = [''unview'', ''films'', ''1'']"
    by (simp add: press_def)
  have g3: "from_user_id (press 7 ''view:films:1'') = 7"
    by (simp add: press_def)
  have g4: "from_user_id (press 7 ''unview:films:1'') = 7"
    by (simp add: press_def)
  have present: "(7, 1) \<in> set (table (user_views (bot_db (world_with series_chosen small_catalog))))"
    by (simp add: world_with_def small_catalog_def table_def)
  show ?thesis
    using h1 h2 ascii_int_2 absent tables present
      view_then_unview_restores [where py_int = ascii_int, OF h1 ascii_int_2 h2 ascii_int_2 h3 h4,
        where w = "world_with series_chosen small_catalog" and ADMIN_IDS = "[]"
          and category = "''films''" and G = "[''drama'']"]
      view_then_unview_restores [where py_int = ascii_int, OF g1 ascii_int_1 g2 ascii_int_1 g3 g4,
        where w = "world_with series_chosen small_catalog" and ADMIN_IDS = "[]"
          and category = "''films''" and G = "[''drama'']"]
    by blast
qed

text \<open>
  Claim C8 as stated fails for an object the user had marked before: in the small
  catalog user 7 has viewed film 1, so the viewed-filtered count of films is 1; the
  mark changes nothing, the unmark removes the pair, and the count is 0.
\<close>

theorem view_then_unview_counterexample:
  "(7, 1) \<in> set (table (user_views (bot_db (world_with series_chosen small_catalog))))
   \<and> count_filtered_objects (bot_db (world_with series_chosen small_catalog)) ''films'' [] True 7 = 1
   \<and> count_filtered_objects
        (bot_db (fst (button [] ascii_int
                   (fst (button [] ascii_int (world_with series_chosen small_catalog)
                           (press 7 ''view:films:1'')))
                   (press 7 ''unview:films:1''))))
        ''films'' [] True 7 = 0"
proof -
  have h1: "str_split (data (press 7 ''view:films:1'')) = [''view'', ''films'', ''1'']"
    by (simp add: press_def)
  have h2: "str_split (data (press 7 ''unview:films:1'')) = [''unview'', ''films'', ''1'']"
    by (simp add: press_def)
  have d1: "bot_db (fst (button [] ascii_int (world_with series_chosen small_catalog)
                           (press 7 ''view:films:1''))) = small_catalog"
    unfolding view_press_db [where py_int = ascii_int, OF h1 ascii_int_1]
    by (simp add: insert_view_def world_with_def small_catalog_def press_def)
  have d2: "bot_db (fst (button [] ascii_int
                   (fst (button [] ascii_int (world_with series_chosen small_catalog)
                           (press 7 ''view:films:1'')))
                   (press 7 ''unview:films:1''))) = small_catalog\<lparr>user_views := Some []\<rparr>"
    unfolding unview_press_db [where py_int = ascii_int, OF h2 ascii_int_1] d1
    by (simp add: delete_view_def small_catalog_def press_def)
  have c1: "count_filtered_objects small_catalog ''films'' [] True 7 = 1"
    by (simp add: count_filtered_objects_def select_filtered_def missing_table_def where_filter_def
        small_catalog_def table_def category_map_def views_subquery_def type_film_def type_series_def)
  have c2: "count_filtered_objects (small_catalog\<lparr>user_views := Some []\<rparr>) ''films'' [] True 7 = 0"
    by (simp add: count_filtered_objects_def select_filtered_def missing_table_def where_filter_def
        small_catalog_def table_def category_map_def views_subquery_def type_film_def type_series_def)
  have m: "(7, 1) \<in> set (table (user_views small_catalog))"
    by (simp add: small_catalog_def table_def)
  have b: "bot_db (world_with series_chosen small_catalog) = small_catalog"
    by (simp add: world_with_def)
  show ?thesis
    unfolding d2 b using m c1 c2 by simp
qed

subsection \<open>Pages of results\<close>

lemma user_data_send_message [simp]: "user_data (fst (send_message w scr)) = user_data w"
  by (simp add: send_message_def)

lemma page_push [simp]: "results_page (user_data (push_new_message_level w)) = results_page (user_data w)"
  by (simp add: push_new_message_level_def)

lemma cache_push [simp]: "cache (user_data (push_new_message_level w)) = cache (user_data w)"
  by (simp add: push_new_message_level_def cache_def)

lemma page_pop [simp]: "results_page (user_data (pop_and_delete_messages w)) = results_page (user_data w)"
  by (simp add: pop_and_delete_messages_def)

lemma cache_pop [simp]: "cache (user_data (pop_and_delete_messages w)) = cache (user_data w)"
  by (simp add: pop_and_delete_messages_def cache_def)

lemma page_add [simp]: "results_page (user_data (add_message_to_stack w m)) = results_page (user_data w)"
  by (simp add: add_message_to_stack_def)

lemma cache_add [simp]: "cache (user_data (add_message_to_stack w m)) = cache (user_data w)"
  by (simp add: add_message_to_stack_def cache_def)

lemma cache_results_cache [simp]: "cache (s\<lparr>results_cache := Some xs\<rparr>) = xs"
  by (simp add: cache_def)

lemma cache_results_page [simp]: "cache (s\<lparr>results_page := p\<rparr>) = cache s"
  by (simp add: cache_def)

lemma user_data_emit [simp]: "user_data (emit w e) = user_data w"
  by (simp add: emit_def)

lemma map_row_update: "map row (xs[i := (xs ! i)\<lparr>obj_genres := g\<rparr>]) = map row xs"
  by (cases "i < length xs") (auto simp: list_eq_iff_nth_eq nth_list_update)

lemma send_cards_page:
  "results_page (user_data (fst (send_cards ADMIN_IDS category chat positions w))) = results_page (user_data w)"
  by (induction positions arbitrary: w) (auto simp: Let_def split: sum.splits)

lemma send_cards_rows:
  "map row (cache (user_data (fst (send_cards ADMIN_IDS category chat positions w))))
     = map row (cache (user_data w))"
proof (induction positions arbitrary: w)
  case Nil
  then show ?case by simp
next
  case (Cons i rest)
  show ?case
    by (auto simp: Let_def Cons.IH map_row_update split: sum.splits)
qed

lemma send_cards_page_eq:
  "send_cards ADMIN_IDS category chat positions w = (w2, r) \<Longrightarrow>
   results_page (user_data w2) = results_page (user_data w)"
  using send_cards_page [of ADMIN_IDS category chat positions w] by simp

lemma send_cards_rows_eq:
  "send_cards ADMIN_IDS category chat positions w = (w2, r) \<Longrightarrow>
   map row (cache (user_data w2)) = map row (cache (user_data w))"
  using send_cards_rows [of ADMIN_IDS category chat positions w] by simp

lemma send_paginated_page:
  "results_page (user_data (fst (send_paginated_results ADMIN_IDS w chat category))) = results_page (user_data w)"
  by (auto simp: send_paginated_results_def Let_def split: prod.splits sum.splits
      dest!: send_cards_page_eq)

lemma send_paginated_rows:
  "map row (cache (user_data (fst (send_paginated_results ADMIN_IDS w chat category))))
     = map row (cache (user_data w))"
  by (auto simp: send_paginated_results_def Let_def split: prod.splits sum.splits
      dest!: send_cards_rows_eq)

lemma send_paginated_empty:
  assumes "py_slice (cache (user_data w))
             ((case results_page (user_data w) of None \<Rightarrow> 0 | Some p \<Rightarrow> p) * PAGE_SIZE)
             ((case results_page (user_data w) of None \<Rightarrow> 0 | Some p \<Rightarrow> p) * PAGE_SIZE + PAGE_SIZE) = []"
  shows "snd (send_paginated_results ADMIN_IDS w chat category) = Inr ()"
  using assms by (simp add: send_paginated_results_def Let_def)

lemma page_press:
  assumes "str_split (data query) = [''page'', category, n]" and "py_int n = Some page"
  shows "button ADMIN_IDS py_int w query =
     (case send_paginated_results ADMIN_IDS
             (pop_and_delete_messages
                (emit w Answered\<lparr>user_data := (user_data w)\<lparr>results_page := Some page\<rparr>\<rparr>))
             (chat_id query) category of
        (w2, Inl e) \<Rightarrow> (w2, Inl e)
      | (w2, Inr u) \<Rightarrow> (w2, Inr None))"
  unfolding button_page_dispatch [OF assms(1)]
  using assms(2)
  by (simp add: button_page_def raising_def index_def to_value_def emit_def Let_def)

lemma page_press_page:
  assumes "str_split (data query) = [''page'', category, n]" and "py_int n = Some page"
  shows "results_page (user_data (fst (button ADMIN_IDS py_int w query))) = Some page"
proof -
  let ?w1 = "pop_and_delete_messages
                (emit w Answered\<lparr>user_data := (user_data w)\<lparr>results_page := Some page\<rparr>\<rparr>)"
  have "fst (button ADMIN_IDS py_int w query) = fst (send_paginated_results ADMIN_IDS ?w1 (chat_id query) category)"
    by (simp add: page_press [where py_int = py_int, OF assms] split: prod.splits sum.splits)
  then show ?thesis
    by (simp add: send_paginated_page)
qed

lemma page_press_rows:
  assumes "str_split (data query) = [''page'', category, n]" and "py_int n = Some page"
  shows "map row (cache (user_data (fst (button ADMIN_IDS py_int w query)))) = map row (cache (user_data w))"
proof -
  let ?w1 = "pop_and_delete_messages
                (emit w Answered\<lparr>user_data := (user_data w)\<lparr>results_page := Some page\<rparr>\<rparr>)"
  have "fst (button ADMIN_IDS py_int w query) = fst (send_paginated_results ADMIN_IDS ?w1 (chat_id query) category)"
    by (simp add: page_press [where py_int = py_int, OF assms] split: prod.splits sum.splits)
  then show ?thesis
    by (simp add: send_paginated_rows)
qed

lemma page_press_empty:
  assumes "str_split (data query) = [''page'', category, n]" and "py_int n = Some page"
    and "py_slice (cache (user_data w)) (page * PAGE_SIZE) (page * PAGE_SIZE + PAGE_SIZE) = []"
  shows "snd (button ADMIN_IDS py_int w query) = Inr None"
proof -
  let ?w1 = "pop_and_delete_messages
                (emit w Answered\<lparr>user_data := (user_data w)\<lparr>results_page := Some page\<rparr>\<rparr>)"
  have "snd (send_paginated_results ADMIN_IDS ?w1 (chat_id query) category) = Inr ()"
    using assms(3) by (intro send_paginated_empty) simp
  then show ?thesis
    by (auto simp: page_press [where py_int = py_int, OF assms(1,2)] split: prod.splits sum.splits)
qed


lemma select_press:
  assumes "str_split (data query) = [''select'', category]"
    and "select_filtered (bot_db w) category (get_or (selected_genres (user_data w)) category [])
           (get_or (viewed_filter (user_data w)) category False) (chat_id query) = Inr rows"
  shows "fst (button ADMIN_IDS py_int w query) =
     fst (send_paginated_results ADMIN_IDS
            (pop_and_delete_messages
               (emit w Answered\<lparr>user_data := (user_data w)\<lparr>
                  results_cache := Some (map (\<lambda>r. \<lparr>row = r, obj_genres = None\<rparr>) rows),
                  results_page := Some 0\<rparr>\<rparr>))
            (chat_id query) category)"
  unfolding button_select_dispatch [OF assms(1)]
  using assms(2)
  by (simp add: button_select_def raising_def index_def emit_def Let_def split: prod.splits sum.splits)

lemma select_press_page:
  assumes "str_split (data query) = [''select'', category]"
    and "select_filtered (bot_db w) category (get_or (selected_genres (user_data w)) category [])
           (get_or (viewed_filter (user_data w)) category False) (chat_id query) = Inr rows"
  shows "results_page (user_data (fst (button ADMIN_IDS py_int w query))) = Some 0
       \<and> map row (cache (user_data (fst (button ADMIN_IDS py_int w query)))) = rows"
  unfolding select_press [OF assms]
  by (simp add: send_paginated_page send_paginated_rows comp_def)

text \<open>
  Claim C1, amended. A press of \<^verbatim>\<open>page:category:n\<close> stores the page of the payload as
  \<^verbatim>\<open>results_page\<close> for every integer \<open>n\<close> parses to, in range or not, and leaves the
  rows of the cache as they are: nothing is rejected or clamped, so
  \<open>results_page * PAGE_SIZE < len(results_cache)\<close> holds afterwards exactly when the
  page of the payload satisfies it. When the stored page holds no cached result the
  handler does not fail: it returns normally (the page is rendered as the single
  "nothing found" message). After a re-query (\<^verbatim>\<open>select\<close>) whose statement succeeds the
  cache holds the rows of the result and the page is 0.
\<close>

theorem page_press_stores_page:
  assumes "str_split (data query) = [''page'', category, n]" and "py_int n = Some page"
    and "str_split (data requery) = [''select'', category']"
  shows "results_page (user_data (fst (button ADMIN_IDS py_int w query))) = Some page
       \<and> map row (cache (user_data (fst (button ADMIN_IDS py_int w query)))) = map row (cache (user_data w))
       \<and> (py_slice (cache (user_data w)) (page * PAGE_SIZE) (page * PAGE_SIZE + PAGE_SIZE) = [] \<longrightarrow>
            snd (button ADMIN_IDS py_int w query) = Inr None)
       \<and> (select_filtered (bot_db w) category' (get_or (selected_genres (user_data w)) category' [])
             (get_or (viewed_filter (user_data w)) category' False) (chat_id requery) = Inr rows \<longrightarrow>
            results_page (user_data (fst (button ADMIN_IDS py_int w requery))) = Some 0
            \<and> map row (cache (user_data (fst (button ADMIN_IDS py_int w requery)))) = rows)"
  using page_press_page [where py_int = py_int, OF assms(1,2)]
    page_press_rows [where py_int = py_int, OF assms(1,2)]
    page_press_empty [where py_int = py_int, OF assms(1,2)]
    select_press_page [OF assms(3)]
  by blast

lemma length_twelve: "length twelve_films = 12"
  by (simp add: twelve_films_def)

lemma cache_browsing: "cache (user_data (world_with browsing small_catalog)) = twelve_films"
  by (simp add: world_with_def browsing_def cache_def cleared_def)

text \<open>
  Claim C1 as stated fails: with twelve cached results and page size 5 there are
  three pages, and a press of \<^verbatim>\<open>page:films:3\<close> is accepted: \<^verbatim>\<open>results_page\<close> becomes 3 with
  the twelve results still cached, and \<open>3 * 5 < 12\<close> is false.
\<close>

theorem page_three_of_twelve_counterexample:
  "length (cache (user_data (world_with browsing small_catalog))) = 12
   \<and> (int (length (cache (user_data (world_with browsing small_catalog)))) + PAGE_SIZE - 1) div PAGE_SIZE = 3
   \<and> results_page (user_data (fst (button [] ascii_int (world_with browsing small_catalog)
                                       (press 7 ''page:films:3'')))) = Some 3
   \<and> length (cache (user_data (fst (button [] ascii_int (world_with browsing small_catalog)
                                       (press 7 ''page:films:3''))))) = 12
   \<and> \<not> 3 * PAGE_SIZE < 12
   \<and> snd (button [] ascii_int (world_with browsing small_catalog) (press 7 ''page:films:3'')) = Inr None"
proof -
  have s: "str_split (data (press 7 ''page:films:3'')) = [''page'', ''films'', ''3'']"
    by (simp add: press_def)
  have e: "py_slice (cache (user_data (world_with browsing small_catalog)))
             (3 * PAGE_SIZE) (3 * PAGE_SIZE + PAGE_SIZE) = []"
    by (simp add: cache_browsing py_slice_def slice_bound_def length_twelve PAGE_SIZE_def)
  have "length (map row (cache (user_data (fst (button [] ascii_int (world_with browsing small_catalog)
                                       (press 7 ''page:films:3'')))))) = 12"
    unfolding page_press_rows [where py_int = ascii_int, OF s ascii_int_3]
    by (simp add: cache_browsing length_twelve)
  then have l: "length (cache (user_data (fst (button [] ascii_int (world_with browsing small_catalog)
                                       (press 7 ''page:films:3''))))) = 12"
    by simp
  show ?thesis
    using l page_press_page [where py_int = ascii_int, OF s ascii_int_3]
      page_press_empty [where py_int = ascii_int, OF s ascii_int_3 e]
    by (simp add: cache_browsing length_twelve PAGE_SIZE_def)
qed


lemma ascii_int_4: "ascii_int ''4'' = Some 4"
  by (simp add: ascii_int_def strip_def is_space_def digits_def is_digit_def digit_val_def)

theorem page_press_stores_page_witness:
  "str_split (data (press 7 ''page:films:4'')) = [''page'', ''films'', ''4'']
   \<and> ascii_int ''4'' = Some 4
   \<and> str_split (data (press 7 ''select:films'')) = [''select'', ''films'']
   \<and> py_slice (cache (user_data (world_with browsing small_catalog)))
         (4 * PAGE_SIZE) (4 * PAGE_SIZE + PAGE_SIZE) = []
   \<and> select_filtered (bot_db (world_with browsing small_catalog)) ''films''
         (get_or (selected_genres (user_data (world_with browsing small_catalog))) ''films'' [])
         (get_or (viewed_filter (user_data (world_with browsing small_catalog))) ''films'' False)
         (chat_id (press 7 ''select:films''))
       = Inr [\<lparr>row_id = 1, obj_type = Some type_film, cols = ()\<rparr>,
              \<lparr>row_id = 2, obj_type = Some type_film, cols = ()\<rparr>]
   \<and> results_page (user_data (fst (button [] ascii_int (world_with browsing small_catalog)
                                       (press 7 ''page:films:4'')))) = Some 4
   \<and> snd (button [] ascii_int (world_with browsing small_catalog) (press 7 ''page:films:4'')) = Inr None
   \<and> results_page (user_data (fst (button [] ascii_int (world_with browsing small_catalog)
                                       (press 7 ''select:films'')))) = Some 0
   \<and> map row (cache (user_data (fst (button [] ascii_int (world_with browsing small_catalog)
                                       (press 7 ''select:films'')))))
       = [\<lparr>row_id = 1, obj_type = Some type_film, cols = ()\<rparr>,
          \<lparr>row_id = 2, obj_type = Some type_film, cols = ()\<rparr>]"
proof -
  have h1: "str_split (data (press 7 ''page:films:4'')) = [''page'', ''films'', ''4'']"
    by (simp add: press_def)
  have h2: "str_split (data (press 7 ''select:films'')) = [''select'', ''films'']"
    by (simp add: press_def)
  have e: "py_slice (cache (user_data (world_with browsing small_catalog)))
             (4 * PAGE_SIZE) (4 * PAGE_SIZE + PAGE_SIZE) = []"
    by (simp add: cache_browsing py_slice_def slice_bound_def length_twelve PAGE_SIZE_def)
  have q: "select_filtered (bot_db (world_with browsing small_catalog)) ''films''
         (get_or (selected_genres (user_data (world_with browsing small_catalog))) ''films'' [])
         (get_or (viewed_filter (user_data (world_with browsing small_catalog))) ''films'' False)
         (chat_id (press 7 ''select:films''))
       = Inr [\<lparr>row_id = 1, obj_type = Some type_film, cols = ()\<rparr>,
              \<lparr>row_id = 2, obj_type = Some type_film, cols = ()\<rparr>]"
    by (simp add: select_filtered_def missing_table_def where_filter_def get_or_def world_with_def
        browsing_def cleared_def small_catalog_def table_def category_map_def type_film_def
        type_series_def press_def)
  show ?thesis
    using h1 ascii_int_4 h2 e q
      page_press_stores_page [where py_int = ascii_int, OF h1 ascii_int_4 h2,
        where w = "world_with browsing small_catalog" and ADMIN_IDS = "[]"
          and rows = "[\<lparr>row_id = 1, obj_type = Some type_film, cols = ()\<rparr>,
                       \<lparr>row_id = 2, obj_type = Some type_film, cols = ()\<rparr>]"]
    by blast
qed

subsection \<open>Replies that are no numbers\<close>

lemma replace_comma_idem: "replace_comma (replace_comma s) = replace_comma s"
  by (induction s) (simp_all add: replace_comma_def)

text \<open>
  Claim C3, amended. None of the three steps that parse a number validates its
  reply: \<^verbatim>\<open>int(text)\<close> and \<^verbatim>\<open>float(text.replace(",", "."))\<close> are evaluated first, and when
  the conversion fails the \<^verbatim>\<open>ValueError\<close> leaves the handler before anything is stored
  or sent. So for every reply that does not parse, the world after the step is the
  world before it (\<^verbatim>\<open>new_object\<close> is unchanged, and no prompt is sent again), no next
  state is returned, and the conversation stays in its state. The rating steps
  replace every comma by a point before parsing, so a reply written with a comma is
  handled exactly as the same reply written with a point; a reply that parses is
  stored and the step moves on.
\<close>

theorem numeric_steps_raise:
  "(py_int reply = None \<longrightarrow>
        add_year py_int w reply = (w, Inl ValueError)
        \<and> conversation_state_after ST_YEAR (snd (add_year py_int w reply)) = ST_YEAR)
   \<and> (py_float (replace_comma reply) = None \<longrightarrow>
        add_admin_rating py_float w reply = (w, Inl ValueError)
        \<and> add_site_rating py_float w reply = (w, Inl ValueError)
        \<and> conversation_state_after ST_ADMIN_RATING (snd (add_admin_rating py_float w reply))
              = ST_ADMIN_RATING
        \<and> conversation_state_after ST_SITE_RATING (snd (add_site_rating py_float w reply))
              = ST_SITE_RATING)
   \<and> add_admin_rating py_float w (replace_comma reply) = add_admin_rating py_float w reply
   \<and> add_site_rating py_float w (replace_comma reply) = add_site_rating py_float w reply
   \<and> (py_int reply = Some year \<and> new_object (user_data w) = Some n \<longrightarrow>
        add_year py_int w reply
          = (fst (send_message
                    (w\<lparr>user_data := (user_data w)\<lparr>new_object := Some (n\<lparr>new_year := Some year\<rparr>)\<rparr>\<rparr>)
                    (Prompt ST_DESCRIPTION [])),
             Inr ST_DESCRIPTION))
   \<and> (py_float (replace_comma reply) = Some rating \<and> new_object (user_data w) = Some n \<longrightarrow>
        add_admin_rating py_float w reply
          = (fst (send_message
                    (w\<lparr>user_data := (user_data w)\<lparr>new_object := Some (n\<lparr>new_admin_rating := Some rating\<rparr>)\<rparr>\<rparr>)
                    (Prompt ST_SITE_RATING [])),
             Inr ST_SITE_RATING))
   \<and> (py_float (replace_comma reply) = Some rating \<and> new_object (user_data w) = Some n
        \<and> new_type n = Some ty \<longrightarrow>
        add_site_rating py_float w reply
          = (fst (send_message
                    (w\<lparr>user_data := (user_data w)\<lparr>new_object := Some (n\<lparr>new_site_rating := Some rating\<rparr>)\<rparr>\<rparr>)
                    (Prompt ST_GENRES (get_category_genres (bot_db w) ty))),
             Inr ST_GENRES))"
  by (simp add: add_year_def add_admin_rating_def add_site_rating_def raising_def to_value_def
      store_new_object_def replace_comma_idem conversation_state_after_def)

lemma ascii_int_abc: "ascii_int ''abc'' = None"
  by (simp add: ascii_int_def strip_def is_space_def digits_def is_digit_def)

lemma ascii_int_word: "ascii_int ''last year'' = None"
  by (simp add: ascii_int_def strip_def is_space_def digits_def is_digit_def)

lemma ascii_decimal_abc: "ascii_decimal (replace_comma ''abc'') = None"
  by (simp add: ascii_decimal_def replace_comma_def is_digit_def)

lemma ascii_decimal_comma: "ascii_decimal (replace_comma ''7,5'') = Some (15 / 2)"
  by (simp add: ascii_decimal_def replace_comma_def is_digit_def digit_val_def)

lemma ascii_decimal_point: "ascii_decimal (replace_comma ''7.5'') = Some (15 / 2)"
  by (simp add: ascii_decimal_def replace_comma_def is_digit_def digit_val_def)

lemma ascii_int_1999: "ascii_int ''1999'' = Some 1999"
  by (simp add: ascii_int_def strip_def is_space_def digits_def is_digit_def digit_val_def)

theorem numeric_steps_raise_witness:
  "ascii_int ''abc'' = None
   \<and> add_year ascii_int (world_with entering small_catalog) ''abc''
        = (world_with entering small_catalog, Inl ValueError)
   \<and> ascii_decimal (replace_comma ''abc'') = None
   \<and> add_admin_rating ascii_decimal (world_with entering small_catalog) ''abc''
        = (world_with entering small_catalog, Inl ValueError)
   \<and> add_site_rating ascii_decimal (world_with entering small_catalog) ''abc''
        = (world_with entering small_catalog, Inl ValueError)
   \<and> ascii_int ''1999'' = Some 1999
   \<and> snd (add_year ascii_int (world_with entering small_catalog) ''1999'') = Inr ST_DESCRIPTION
   \<and> ascii_decimal (replace_comma ''7,5'') = Some (15 / 2)
   \<and> ascii_decimal (replace_comma ''7.5'') = Some (15 / 2)
   \<and> snd (add_admin_rating ascii_decimal (world_with entering small_catalog) ''7,5'') = Inr ST_SITE_RATING
   \<and> snd (add_admin_rating ascii_decimal (world_with entering small_catalog) ''7.5'') = Inr ST_SITE_RATING
   \<and> snd (add_site_rating ascii_decimal (world_with entering small_catalog) ''7,5'') = Inr ST_GENRES"
proof -
  obtain n where n: "new_object (user_data (world_with entering small_catalog)) = Some n"
    and ty: "new_type n = Some type_film"
    by (simp add: world_with_def entering_def)
  show ?thesis
    using ascii_int_abc ascii_decimal_abc ascii_decimal_comma ascii_decimal_point ascii_int_1999 n ty
      numeric_steps_raise [where py_int = ascii_int and py_float = ascii_decimal
        and reply = "''abc''" and w = "world_with entering small_catalog"]
      numeric_steps_raise [where py_int = ascii_int and py_float = ascii_decimal
        and reply = "''1999''" and w = "world_with entering small_catalog" and year = 1999 and n = n]
      numeric_steps_raise [where py_int = ascii_int and py_float = ascii_decimal
        and reply = "''7,5''" and w = "world_with entering small_catalog" and rating = "15 / 2"
        and n = n and ty = type_film]
      numeric_steps_raise [where py_int = ascii_int and py_float = ascii_decimal
        and reply = "''7.5''" and w = "world_with entering small_catalog" and rating = "15 / 2"
        and n = n and ty = type_film]
    by simp
qed

text \<open>
  Claim C3 as stated fails: a reply that is no number is not answered by a new
  prompt. The handler ends in \<^verbatim>\<open>ValueError\<close>, and the transport has received nothing.
\<close>

theorem bad_year_counterexample:
  "snd (add_year ascii_int (world_with entering small_catalog) ''last year'') = Inl ValueError
   \<and> transport (fst (add_year ascii_int (world_with entering small_catalog) ''last year''))
       = transport (world_with entering small_catalog)
   \<and> snd (add_admin_rating ascii_decimal (world_with entering small_catalog) ''abc'') = Inl ValueError
   \<and> transport (fst (add_admin_rating ascii_decimal (world_with entering small_catalog) ''abc''))
       = transport (world_with entering small_catalog)"
  by (simp add: add_year_def add_admin_rating_def raising_def to_value_def ascii_int_word
      ascii_decimal_abc)

subsection \<open>Genre lists without duplicates\<close>

text \<open>
  Only the \<^verbatim>\<open>category\<close> and \<^verbatim>\<open>genre\<close> branches write the genre dictionary; the one creates
  empty lists, the other appends a genre only when it is not in the list. So every
  press keeps the lists free of duplicates.
\<close>

lemma sg_push [simp]: "selected_genres (user_data (push_new_message_level w)) = selected_genres (user_data w)"
  by (simp add: push_new_message_level_def)

lemma sg_pop [simp]: "selected_genres (user_data (pop_and_delete_messages w)) = selected_genres (user_data w)"
  by (simp add: pop_and_delete_messages_def)

lemma sg_add [simp]: "selected_genres (user_data (add_message_to_stack w m)) = selected_genres (user_data w)"
  by (simp add: add_message_to_stack_def)

lemma send_cards_sg:
  "selected_genres (user_data (fst (send_cards ADMIN_IDS category chat positions w)))
     = selected_genres (user_data w)"
  by (induction positions arbitrary: w) (auto simp: Let_def split: sum.splits)

lemma send_cards_sg_eq:
  "send_cards ADMIN_IDS category chat positions w = (w2, r) \<Longrightarrow>
   selected_genres (user_data w2) = selected_genres (user_data w)"
  using send_cards_sg [of ADMIN_IDS category chat positions w] by simp

lemma send_paginated_sg:
  "selected_genres (user_data (fst (send_paginated_results ADMIN_IDS w chat category)))
     = selected_genres (user_data w)"
  by (auto simp: send_paginated_results_def Let_def split: prod.splits sum.splits
      dest!: send_cards_sg_eq)

lemma send_paginated_sg_eq:
  "send_paginated_results ADMIN_IDS w chat category = (w2, r) \<Longrightarrow>
   selected_genres (user_data w2) = selected_genres (user_data w)"
  using send_paginated_sg [of ADMIN_IDS w chat category] by simp

lemma refresh_card_sg:
  "selected_genres (user_data (fst (refresh_card ADMIN_IDS w c object_id user_id v)))
     = selected_genres (user_data w)"
  by (simp add: refresh_card_def raising_def Let_def split: option.splits sum.splits)

lemma button_admin_sg:
  "selected_genres (user_data (fst (button_admin ADMIN_IDS w query what))) = selected_genres (user_data w)"
  by (simp add: button_admin_def)

lemma button_delete_sg:
  "selected_genres (user_data (fst (button_delete ADMIN_IDS py_int w query parts)))
     = selected_genres (user_data w)"
  by (auto simp: button_delete_def raising_def Let_def split: sum.splits prod.splits
      dest!: send_paginated_sg_eq)

lemma button_select_sg:
  "selected_genres (user_data (fst (button_select ADMIN_IDS w query parts)))
     = selected_genres (user_data w)"
  by (auto simp: button_select_def raising_def Let_def split: sum.splits prod.splits
      dest!: send_paginated_sg_eq)

lemma button_page_sg:
  "selected_genres (user_data (fst (button_page ADMIN_IDS py_int w query parts)))
     = selected_genres (user_data w)"
  by (auto simp: button_page_def raising_def Let_def split: sum.splits prod.splits
      dest!: send_paginated_sg_eq)

lemma button_view_sg:
  "selected_genres (user_data (fst (button_view ADMIN_IDS py_int w query parts)))
     = selected_genres (user_data w)"
  by (auto simp: button_view_def raising_def Let_def refresh_card_sg split: sum.splits)

lemma button_unview_sg:
  "selected_genres (user_data (fst (button_unview ADMIN_IDS py_int w query parts)))
     = selected_genres (user_data w)"
  by (auto simp: button_unview_def raising_def Let_def refresh_card_sg split: sum.splits)

lemma button_back_sg:
  "selected_genres (user_data (fst (button_back ADMIN_IDS w query parts)))
     = selected_genres (user_data w)"
  by (auto simp: button_back_def raising_def Let_def split: sum.splits)

lemma genres_distinct_cong:
  "selected_genres s' = selected_genres s \<Longrightarrow> genres_distinct s \<Longrightarrow> genres_distinct s'"
  by (simp add: genres_distinct_def)

lemma button_category_distinct:
  "genres_distinct (user_data w) \<Longrightarrow> genres_distinct (user_data (fst (button_category w query parts)))"
  by (auto simp: button_category_def raising_def Let_def genres_distinct_def
      split: sum.splits option.splits if_splits)

lemma button_genre_distinct:
  "genres_distinct (user_data w) \<Longrightarrow> genres_distinct (user_data (fst (button_genre w query parts)))"
  by (auto simp: button_genre_def raising_def Let_def genres_distinct_def toggle_def lookup_def emit_def
      split: sum.splits option.splits if_splits)

lemma cleared_distinct: "genres_distinct cleared"
  by (simp add: genres_distinct_def cleared_def)

lemma genres_distinct_get_or:
  "genres_distinct s \<Longrightarrow> distinct (get_or (selected_genres s) category [])"
  by (auto simp: genres_distinct_def get_or_def split: option.splits)


lemma button_distinct:
  assumes "genres_distinct (user_data w)"
  shows "genres_distinct (user_data (fst (button ADMIN_IDS py_int w query)))"
proof -
  have w0: "genres_distinct (user_data (emit w Answered))"
    using assms by simp
  obtain action rest where p: "str_split (data query) = action # rest"
    using str_split_nonempty by (cases "str_split (data query)") auto
  consider "action = ''admin''" | "action = ''category''" | "action = ''genre''"
    | "action = ''delete''" | "action = ''select''" | "action = ''page''" | "action = ''view''"
    | "action = ''unview''" | "action = ''back''"
    | "action \<notin> set [''admin'', ''category'', ''genre'', ''delete'', ''select'', ''page'', ''view'',
                      ''unview'', ''back'']"
    by auto
  then show ?thesis
  proof cases
    case 1
    show ?thesis
      unfolding button_admin_dispatch [OF p [unfolded 1]]
      using w0 by (cases rest) (simp_all add: genres_distinct_cong [OF button_admin_sg])
  next
    case 2
    show ?thesis
      unfolding button_category_dispatch [OF p [unfolded 2]]
      using w0 by (rule button_category_distinct)
  next
    case 3
    show ?thesis
      unfolding button_genre_dispatch [OF p [unfolded 3]]
      using w0 by (rule button_genre_distinct)
  next
    case 4
    show ?thesis
      unfolding button_delete_dispatch [OF p [unfolded 4]]
      using w0 by (rule genres_distinct_cong [OF button_delete_sg])
  next
    case 5
    show ?thesis
      unfolding button_select_dispatch [OF p [unfolded 5]]
      using w0 by (rule genres_distinct_cong [OF button_select_sg])
  next
    case 6
    show ?thesis
      unfolding button_page_dispatch [OF p [unfolded 6]]
      using w0 by (rule genres_distinct_cong [OF button_page_sg])
  next
    case 7
    show ?thesis
      unfolding button_view_dispatch [OF p [unfolded 7]]
      using w0 by (rule genres_distinct_cong [OF button_view_sg])
  next
    case 8
    show ?thesis
      unfolding button_unview_dispatch [OF p [unfolded 8]]
      using w0 by (rule genres_distinct_cong [OF button_unview_sg])
  next
    case 9
    show ?thesis
      unfolding button_back_dispatch [OF p [unfolded 9]]
      using w0 by (rule genres_distinct_cong [OF button_back_sg])
  next
    case 10
    show ?thesis
      unfolding button_other_dispatch [OF p 10]
      using w0 by simp
  qed
qed

end
